theory Spec2Isabelle
  imports Complex_Main "HOL-Library.Multiset" "HOL-Library.Log_Nat"
begin

section \<open>JavaScript numbers and strings as the server uses them\<close>

text \<open>
  A JavaScript number is an IEEE-754 double: a finite value, one of the two infinities,
  or NaN. A finite value is kept as the real it denotes, and the arithmetic rounds its
  exact result to the nearest double, ties to the even significand; the sign of zero
  is not part of the model. Instants (\<open>Date\<close> values) are integers, milliseconds
  since the epoch.
\<close>

datatype jsnum = Fin real | PInf | NInf | NaN

fun js_neg :: "jsnum \<Rightarrow> jsnum" where
  "js_neg (Fin a) = Fin (- a)"
| "js_neg PInf = NInf"
| "js_neg NInf = PInf"
| "js_neg NaN = NaN"

definition pow2 :: "int \<Rightarrow> real" where
  "pow2 k = (if 0 \<le> k then 2 ^ nat k else 1 / 2 ^ nat (- k))"

text \<open>The nearest integer, the even one of the two when they are equally near.\<close>

definition round_half_even :: "real \<Rightarrow> int" where
  "round_half_even q =
     (let f = \<lfloor>q\<rfloor>; d = q - of_int f
      in if d < 1 / 2 then f
         else if 1 / 2 < d then f + 1
         else if even f then f else f + 1)"

text \<open>
  The binary exponent of a positive real, the \<open>e\<close> with \<open>2 ^ e \<le> x < 2 ^ (e + 1)\<close>,
  from the number of bits of an integer (\<open>bitlen\<close>): of the integer part of \<open>x\<close>
  from 1 on, of its inverse rounded up below 1. It is \<open>\<lfloor>log 2 x\<rfloor>\<close> (lemma
  \<open>binary_exponent_log\<close>).
\<close>

definition binary_exponent :: "real \<Rightarrow> int" where
  "binary_exponent x = (if 1 \<le> x then bitlen \<lfloor>x\<rfloor> - 1 else - bitlen (\<lceil>1 / x\<rceil> - 1))"

text \<open>
  The double nearest to a real. With \<open>e\<close> the binary exponent of \<open>x\<close>, not below
  that of the subnormal numbers, the doubles around \<open>x\<close> are the multiples of
  \<open>2 ^ (e - 52)\<close>; a result of magnitude \<open>2 ^ 1024\<close> or more is an infinity.
\<close>

definition round_double :: "real \<Rightarrow> jsnum" where
  "round_double x =
     (if x = 0 then Fin 0
      else
        let e = max (binary_exponent \<bar>x\<bar>) (- 1022);
            u = pow2 (e - 52);
            r = of_int (round_half_even (x / u)) * u
        in if 2 ^ 1024 \<le> r then PInf
           else if r \<le> - (2 ^ 1024) then NInf
           else Fin r)"

text \<open>The operator \<open>*\<close> on numbers.\<close>

fun js_mul :: "jsnum \<Rightarrow> jsnum \<Rightarrow> jsnum" where
  "js_mul NaN b = NaN"
| "js_mul a NaN = NaN"
| "js_mul (Fin a) (Fin b) = round_double (a * b)"
| "js_mul (Fin a) PInf = (if a = 0 then NaN else if 0 < a then PInf else NInf)"
| "js_mul (Fin a) NInf = (if a = 0 then NaN else if 0 < a then NInf else PInf)"
| "js_mul PInf (Fin b) = (if b = 0 then NaN else if 0 < b then PInf else NInf)"
| "js_mul NInf (Fin b) = (if b = 0 then NaN else if 0 < b then NInf else PInf)"
| "js_mul PInf PInf = PInf"
| "js_mul PInf NInf = NInf"
| "js_mul NInf PInf = NInf"
| "js_mul NInf NInf = PInf"

text \<open>The operator \<open>-\<close> on numbers.\<close>

fun js_sub :: "jsnum \<Rightarrow> jsnum \<Rightarrow> jsnum" where
  "js_sub NaN b = NaN"
| "js_sub a NaN = NaN"
| "js_sub (Fin a) (Fin b) = round_double (a - b)"
| "js_sub (Fin a) PInf = NInf"
| "js_sub (Fin a) NInf = PInf"
| "js_sub PInf (Fin b) = PInf"
| "js_sub NInf (Fin b) = NInf"
| "js_sub PInf PInf = NaN"
| "js_sub PInf NInf = PInf"
| "js_sub NInf PInf = NInf"
| "js_sub NInf NInf = NaN"

text \<open>
  The number a \<open>Date\<close> converts to: its time value, an integer of magnitude at most
  8.64e15 and so a double (lemma \<open>round_double_of_int\<close>).
\<close>

definition date_value :: "int \<Rightarrow> jsnum" where
  "date_value t = Fin (real_of_int t)"

text \<open>The operator \<open>>\<close> on numbers: every comparison with NaN is false.\<close>

fun js_gt :: "jsnum \<Rightarrow> jsnum \<Rightarrow> bool" where
  "js_gt (Fin a) (Fin b) = (b < a)"
| "js_gt (Fin a) NInf = True"
| "js_gt PInf (Fin b) = True"
| "js_gt PInf NInf = True"
| "js_gt a b = False"

text \<open>
  A string is the list of the bytes of its UTF-8 encoding. \<open>startsWith\<close>, \<open>replace\<close>
  and \<open>split\<close> are called with ASCII patterns, for which they act on the bytes as they
  act on the characters. \<open>toLowerCase\<close>, \<open>trim\<close> and the conversion of a string to a
  number follow Unicode tables and the grammar of numeric literals; the handlers take
  them from the platform (see \<open>platform\<close> below).
\<close>

definition startsWith :: "string \<Rightarrow> string \<Rightarrow> bool" where
  "startsWith s p = (take (length p) s = p)"

text \<open>\<open>s.replace(p, r)\<close> with a string pattern: the first occurrence only.\<close>

fun replace_first :: "string \<Rightarrow> string \<Rightarrow> string \<Rightarrow> string" where
  "replace_first [] p r = (if p = [] then r else [])"
| "replace_first (c # cs) p r =
     (if startsWith (c # cs) p then r @ drop (length p) (c # cs)
      else c # replace_first cs p r)"

text \<open>\<open>s.split("@")[0]\<close>: the part before the first separator.\<close>

definition split_head :: "char \<Rightarrow> string \<Rightarrow> string" where
  "split_head sep s = takeWhile (\<lambda>c. c \<noteq> sep) s"

section \<open>Data model\<close>

text \<open>
  Modelled from the spec: the Mongoose schemas \<open>models/User\<close>, \<open>models/Sensor\<close> and
  \<open>models/Measurement\<close> are required by \<open>server.js\<close> and are not part of the
  sources; the fields and their types follow section 3 of the specification. A
  document reference (\<open>ObjectId\<close>) is a natural number.
\<close>

type_synonym oid = nat

record user =
  user_id :: oid
  username :: string
  password :: string
  whatsapp :: "string option"

record sensor =
  hardwareId :: string
  friendlyName :: string
  alertThreshold :: real
  owner :: oid
  enabled :: bool
  lastAlertSent :: "int option"

record measurement =
  sensorId :: string
  temperatureC :: real
  voltageV :: real
  timestamp :: int

text \<open>The line chart handed to QuickChart; \<open>chart.getUrl()\<close> encodes it in a URL.\<close>

record chart_config =
  chart_type :: string
  chart_labels :: "string list"
  dataset_label :: string
  dataset_data :: "real list"
  borderColor :: string
  fill :: bool
  backgroundColor :: string

text \<open>
  The requests posted to the chat API with \<open>axios.post\<close>: \<open>sendText\<close> with number and
  text, \<open>sendImage\<close> with number, the chart whose URL is sent, and caption.
\<close>

datatype outmsg =
    SendText string string
  | SendImage string chart_config string

datatype logline =
    LogSendTextError
  | LogSendImageError
  | LogCooldown string
  | LogCommand string

datatype exn = StorageError | TypeError | SyntaxError

datatype body =
    Text string
  | StatusText
  | JsonMessage string
  | JsonError string
  | JsonSensor sensor
  | JsonDocs "measurement list"

text \<open>
  A handler answers with a status and a body, or, when a rejected promise escapes a
  handler that has no \<open>try\<close>, never answers.
\<close>

datatype response = Response nat body | NoResponse

text \<open>
  The world a handler runs in: the three collections in insertion order, the requests
  posted to the chat API so far, the console, and two oracles. Each database operation
  takes the next flag of \<open>db_faults\<close> and each \<open>axios.post\<close> the next flag of
  \<open>net_faults\<close>; \<open>True\<close> makes the operation reject, an exhausted oracle means
  success.
\<close>

record world =
  users :: "user list"
  sensors :: "sensor list"
  measurements :: "measurement list"
  outbox :: "outmsg list"
  console :: "logline list"
  db_faults :: "bool list"
  net_faults :: "bool list"

text \<open>
  \<open>process.env\<close>, and the functions of the JavaScript runtime and its libraries that
  the handlers call: the printing of a number in a template, \<open>toLocaleTimeString\<close>,
  \<open>new RegExp(p, "i")\<close> (no result for a pattern it rejects) with the test the
  database runs for \<open>$regex\<close>, \<open>toLowerCase\<close>, \<open>trim\<close>, and the conversion of a
  string to a number that \<open>*\<close> applies to a string operand. The handlers are defined,
  and the theorems proved, for every platform.
\<close>

record env =
  ALERT_COOLDOWN :: "string option"

record platform =
  num_to_string :: "real \<Rightarrow> string"
  time_label :: "int \<Rightarrow> string"
  regexp_i :: "string \<Rightarrow> (string \<Rightarrow> bool) option"
  to_lower_case :: "string \<Rightarrow> string"
  trim :: "string \<Rightarrow> string"
  to_number :: "string \<Rightarrow> jsnum"

section \<open>Database and network operations\<close>

definition db_call :: "world \<Rightarrow> bool \<times> world" where
  "db_call w = (case db_faults w of [] \<Rightarrow> (False, w) | f # fs \<Rightarrow> (f, w\<lparr>db_faults := fs\<rparr>))"

definition net_call :: "world \<Rightarrow> bool \<times> world" where
  "net_call w = (case net_faults w of [] \<Rightarrow> (False, w) | f # fs \<Rightarrow> (f, w\<lparr>net_faults := fs\<rparr>))"

fun find_index :: "('a \<Rightarrow> bool) \<Rightarrow> 'a list \<Rightarrow> nat option" where
  "find_index P [] = None"
| "find_index P (x # xs) = (if P x then Some 0 else map_option Suc (find_index P xs))"

text \<open>A JavaScript string is truthy when it is present and not empty.\<close>

definition truthy :: "string option \<Rightarrow> bool" where
  "truthy v = (case v of None \<Rightarrow> False | Some s \<Rightarrow> s \<noteq> [])"

definition contact_of :: "user option \<Rightarrow> string option" where
  "contact_of ownr = (case ownr of None \<Rightarrow> None | Some u \<Rightarrow> whatsapp u)"

text \<open>
  \<open>Sensor.findOne({ hardwareId }).populate("owner")\<close>: the first sensor with that
  hardwareId, its position in the collection (the identity of the document, used when
  it is saved) and the user its owner field refers to, if that user exists.
\<close>

definition Sensor_findOne_populate ::
  "string \<Rightarrow> world \<Rightarrow> (exn + (nat \<times> sensor \<times> user option) option) \<times> world" where
  "Sensor_findOne_populate hid w =
     (case db_call w of
        (True, w1) \<Rightarrow> (Inl StorageError, w1)
      | (False, w1) \<Rightarrow>
          (Inr (case find_index (\<lambda>s. hardwareId s = hid) (sensors w1) of
                  None \<Rightarrow> None
                | Some i \<Rightarrow>
                    Some (i, sensors w1 ! i,
                          find (\<lambda>u. user_id u = owner (sensors w1 ! i)) (users w1))),
           w1))"

text \<open>\<open>new Measurement({...}).save()\<close>\<close>

definition Measurement_save :: "measurement \<Rightarrow> world \<Rightarrow> (exn + unit) \<times> world" where
  "Measurement_save m w =
     (case db_call w of
        (True, w1) \<Rightarrow> (Inl StorageError, w1)
      | (False, w1) \<Rightarrow> (Inr (), w1\<lparr>measurements := measurements w1 @ [m]\<rparr>))"

text \<open>\<open>sensor.save()\<close> of the document found at position \<open>i\<close>.\<close>

definition Sensor_save :: "nat \<Rightarrow> sensor \<Rightarrow> world \<Rightarrow> (exn + unit) \<times> world" where
  "Sensor_save i s w =
     (case db_call w of
        (True, w1) \<Rightarrow> (Inl StorageError, w1)
      | (False, w1) \<Rightarrow> (Inr (), w1\<lparr>sensors := (sensors w1)[i := s]\<rparr>))"

section \<open>Sending WhatsApp messages\<close>

definition nl :: string where "nl = [CHR 0x0A]"
definition degree_sign :: string where "degree_sign = [CHR 0xC2, CHR 0xB0]"
definition emoji_siren :: string where "emoji_siren = [CHR 0xF0, CHR 0x9F, CHR 0x9A, CHR 0xA8]"
definition emoji_pin :: string where "emoji_pin = [CHR 0xF0, CHR 0x9F, CHR 0x93, CHR 0x8D]"
definition emoji_thermometer :: string where
  "emoji_thermometer = [CHR 0xF0, CHR 0x9F, CHR 0x8C, CHR 0xA1, CHR 0xEF, CHR 0xB8, CHR 0x8F]"
definition emoji_warning :: string where
  "emoji_warning = [CHR 0xE2, CHR 0x9A, CHR 0xA0, CHR 0xEF, CHR 0xB8, CHR 0x8F]"
definition emoji_point :: string where "emoji_point = [CHR 0xF0, CHR 0x9F, CHR 0x91, CHR 0x89]"
definition emoji_clipboard :: string where
  "emoji_clipboard = [CHR 0xF0, CHR 0x9F, CHR 0x93, CHR 0x8B]"
definition emoji_red :: string where "emoji_red = [CHR 0xF0, CHR 0x9F, CHR 0x94, CHR 0xB4]"
definition emoji_green :: string where "emoji_green = [CHR 0xF0, CHR 0x9F, CHR 0x9F, CHR 0xA2]"
definition emoji_cross :: string where "emoji_cross = [CHR 0xE2, CHR 0x9D, CHR 0x8C]"
definition emoji_chart :: string where "emoji_chart = [CHR 0xF0, CHR 0x9F, CHR 0x93, CHR 0x8A]"
definition i_acute :: string where "i_acute = [CHR 0xC3, CHR 0xAD]"
definition e_acute :: string where "e_acute = [CHR 0xC3, CHR 0xA9]"

text \<open>
  \<open>responderWhatsApp\<close> posts the text and catches a failure of the post, which is only
  logged; the caller never sees it.
\<close>

definition responderWhatsApp :: "string \<Rightarrow> string \<Rightarrow> world \<Rightarrow> world" where
  "responderWhatsApp number txt w =
     (case net_call w of
        (failed, w1) \<Rightarrow>
          let w2 = w1\<lparr>outbox := outbox w1 @ [SendText number txt]\<rparr>
          in if failed then w2\<lparr>console := console w2 @ [LogSendTextError]\<rparr> else w2)"

definition responderWhatsAppConImagen ::
  "string \<Rightarrow> chart_config \<Rightarrow> string \<Rightarrow> world \<Rightarrow> world" where
  "responderWhatsAppConImagen number chart caption w =
     (case net_call w of
        (failed, w1) \<Rightarrow>
          let w2 = w1\<lparr>outbox := outbox w1 @ [SendImage number chart caption]\<rparr>
          in if failed then w2\<lparr>console := console w2 @ [LogSendImageError]\<rparr> else w2)"

definition alert_mensaje :: "platform \<Rightarrow> string \<Rightarrow> real \<Rightarrow> string" where
  "alert_mensaje lib sensorName temp =
     emoji_siren @ '' *ALERTA DE TEMPERATURA*'' @ nl @ nl @
     emoji_pin @ '' *Equipo:* '' @ sensorName @ nl @
     emoji_thermometer @ '' *Temperatura:* '' @ num_to_string lib temp @ degree_sign @ ''C'' @ nl @ nl @
     emoji_warning @ '' _El l'' @ i_acute @ ''mite ha sido superado._'' @ nl @
     emoji_point @ '' Escribe *Estado* para ver todos tus equipos.''"

definition sendWhatsAppAlert :: "platform \<Rightarrow> string \<Rightarrow> string \<Rightarrow> real \<Rightarrow> world \<Rightarrow> world" where
  "sendWhatsAppAlert lib number sensorName temp w =
     responderWhatsApp number (alert_mensaje lib sensorName temp) w"

section \<open>POST /api/data\<close>

record data_req =
  req_sensorId :: string
  req_tempC :: real
  req_voltageV :: real

text \<open>\<open>(process.env.ALERT_COOLDOWN || 30) * 60000\<close>\<close>

definition cooldownMs :: "platform \<Rightarrow> env \<Rightarrow> jsnum" where
  "cooldownMs lib ev =
     js_mul (case ALERT_COOLDOWN ev of
               None \<Rightarrow> Fin 30
             | Some v \<Rightarrow> if v = [] then Fin 30 else to_number lib v)
            (Fin 60000)"

text \<open>
  The handler, with \<open>now\<close> the instant the clock shows during the request: the default
  timestamp of the new measurement and \<open>ahora\<close>. The alert branch is entered when
  \<open>tempC > sensor.alertThreshold && sensor.owner?.whatsapp\<close>, that is, when the
  populated owner has a non-empty contact string.
\<close>

definition post_api_data ::
  "platform \<Rightarrow> env \<Rightarrow> int \<Rightarrow> data_req \<Rightarrow> world \<Rightarrow> response \<times> world" where
  "post_api_data lib ev now req w =
     (case Sensor_findOne_populate (req_sensorId req) w of
        (Inl e, w1) \<Rightarrow> (Response 500 (Text ''Error''), w1)
      | (Inr None, w1) \<Rightarrow> (Response 404 (Text ''Sensor no configurado''), w1)
      | (Inr (Some (i, sensor, ownr)), w1) \<Rightarrow>
          (case Measurement_save
                  \<lparr>sensorId = req_sensorId req, temperatureC = req_tempC req,
                   voltageV = req_voltageV req, timestamp = now\<rparr> w1 of
             (Inl e, w2) \<Rightarrow> (Response 500 (Text ''Error''), w2)
           | (Inr u, w2) \<Rightarrow>
               (case contact_of ownr of
                  None \<Rightarrow> (Response 200 (Text ''OK''), w2)
                | Some number \<Rightarrow>
                    if alertThreshold sensor < req_tempC req \<and> number \<noteq> [] then
                      (if (case lastAlertSent sensor of
                             None \<Rightarrow> True
                           | Some l \<Rightarrow> js_gt (js_sub (date_value now) (date_value l)) (cooldownMs lib ev))
                       then
                         (case Sensor_save i (sensor\<lparr>lastAlertSent := Some now\<rparr>)
                                 (sendWhatsAppAlert lib number (friendlyName sensor)
                                    (req_tempC req) w2) of
                            (Inl e, w4) \<Rightarrow> (Response 500 (Text ''Error''), w4)
                          | (Inr u, w4) \<Rightarrow> (Response 200 (Text ''OK''), w4))
                       else
                         (Response 200 (Text ''OK''),
                          w2\<lparr>console := console w2 @ [LogCooldown (friendlyName sensor)]\<rparr>))
                    else (Response 200 (Text ''OK''), w2))))"

section \<open>POST /api/webhook/whatsapp\<close>

text \<open>
  The event envelope of the chat platform, as far as the handler reads it. A field that
  may be absent from the JSON body is an option; reading a property of an absent object
  throws a TypeError.
\<close>

record ext_text_message =
  ext_text :: "string option"

record wa_message =
  conversation :: "string option"
  extendedTextMessage :: "ext_text_message option"

record wa_key =
  remoteJid :: "string option"

record wa_data =
  data_message :: "wa_message option"
  data_key :: "wa_key option"

record webhook_body =
  body_data :: "wa_data option"

text \<open>\<open>a || b\<close> on strings: \<open>a\<close> when it is truthy.\<close>

definition or_else :: "string option \<Rightarrow> string \<Rightarrow> string" where
  "or_else a b = (case a of None \<Rightarrow> b | Some s \<Rightarrow> if s \<noteq> [] then s else b)"

text \<open>
  \<open>data.message.conversation || data.message.extendedTextMessage?.text || ""\<close>
\<close>

definition message_text :: "wa_message \<Rightarrow> string" where
  "message_text m =
     or_else (conversation m)
       (or_else (case extendedTextMessage m of None \<Rightarrow> None | Some x \<Rightarrow> ext_text x) [])"

text \<open>The text of the command: \<open>(...).toLowerCase().trim()\<close>\<close>

definition command_text :: "platform \<Rightarrow> wa_message \<Rightarrow> string" where
  "command_text lib m = trim lib (to_lower_case lib (message_text m))"

text \<open>The sender: \<open>data.key.remoteJid.split("@")[0]\<close>\<close>

definition sender_of :: "string \<Rightarrow> string" where
  "sender_of jid = split_head (CHR ''@'') jid"

text \<open>The query of a \<open>historial\<close> command: \<open>text.replace("historial", "").trim()\<close>\<close>

definition busqueda_of :: "platform \<Rightarrow> string \<Rightarrow> string" where
  "busqueda_of lib txt = trim lib (replace_first txt ''historial'' [])"

definition User_findOne_whatsapp :: "string \<Rightarrow> world \<Rightarrow> (exn + user option) \<times> world" where
  "User_findOne_whatsapp number w =
     (case db_call w of
        (True, w1) \<Rightarrow> (Inl StorageError, w1)
      | (False, w1) \<Rightarrow> (Inr (find (\<lambda>u. whatsapp u = Some number) (users w1)), w1))"

text \<open>\<open>Sensor.find({ owner: user._id, enabled: true })\<close>\<close>

definition Sensor_find_enabled :: "oid \<Rightarrow> world \<Rightarrow> (exn + sensor list) \<times> world" where
  "Sensor_find_enabled uid w =
     (case db_call w of
        (True, w1) \<Rightarrow> (Inl StorageError, w1)
      | (False, w1) \<Rightarrow> (Inr (filter (\<lambda>s. owner s = uid \<and> enabled s) (sensors w1)), w1))"

text \<open>
  \<open>.sort({ timestamp: -1 })\<close>: newest first; measurements with the same timestamp keep
  their insertion order.
\<close>

definition sort_newest_first :: "measurement list \<Rightarrow> measurement list" where
  "sort_newest_first ms = sort_key (\<lambda>m. - timestamp m) ms"

text \<open>\<open>.limit(n)\<close>: the first \<open>n\<close> documents; MongoDB reads a limit of 0 as no limit.\<close>

definition limit_docs :: "nat \<Rightarrow> 'a list \<Rightarrow> 'a list" where
  "limit_docs n xs = (if n = 0 then xs else take n xs)"

text \<open>\<open>Measurement.findOne({ sensorId }).sort({ timestamp: -1 })\<close>\<close>

definition Measurement_findOne_latest ::
  "string \<Rightarrow> world \<Rightarrow> (exn + measurement option) \<times> world" where
  "Measurement_findOne_latest hid w =
     (case db_call w of
        (True, w1) \<Rightarrow> (Inl StorageError, w1)
      | (False, w1) \<Rightarrow>
          (Inr (case sort_newest_first (filter (\<lambda>m. sensorId m = hid) (measurements w1)) of
                  [] \<Rightarrow> None
                | m # ms \<Rightarrow> Some m),
           w1))"

text \<open>\<open>Measurement.find({ sensorId }).sort({ timestamp: -1 }).limit(n)\<close>\<close>

definition Measurement_find ::
  "string \<Rightarrow> nat \<Rightarrow> world \<Rightarrow> (exn + measurement list) \<times> world" where
  "Measurement_find hid n w =
     (case db_call w of
        (True, w1) \<Rightarrow> (Inl StorageError, w1)
      | (False, w1) \<Rightarrow>
          (Inr (limit_docs n
                  (sort_newest_first (filter (\<lambda>m. sensorId m = hid) (measurements w1)))),
           w1))"

text \<open>
  \<open>Sensor.findOne({ owner: user._id, friendlyName: { $regex: re } })\<close> with \<open>re\<close> the
  compiled pattern.
\<close>

definition Sensor_findOne_matching ::
  "oid \<Rightarrow> (string \<Rightarrow> bool) \<Rightarrow> world \<Rightarrow> (exn + sensor option) \<times> world" where
  "Sensor_findOne_matching uid re w =
     (case db_call w of
        (True, w1) \<Rightarrow> (Inl StorageError, w1)
      | (False, w1) \<Rightarrow>
          (Inr (find (\<lambda>s. owner s = uid \<and> re (friendlyName s)) (sensors w1)), w1))"

text \<open>The loop of the \<open>estado\<close> command over the sensors found, building \<open>reporte\<close>.\<close>

fun estado_loop ::
  "platform \<Rightarrow> sensor list \<Rightarrow> string \<Rightarrow> world \<Rightarrow> (exn + string) \<times> world" where
  "estado_loop lib [] reporte w = (Inr reporte, w)"
| "estado_loop lib (s # ss) reporte w =
     (case Measurement_findOne_latest (hardwareId s) w of
        (Inl e, w1) \<Rightarrow> (Inl e, w1)
      | (Inr lastM, w1) \<Rightarrow>
          let temp = (case lastM of
                        None \<Rightarrow> ''N/A''
                      | Some m \<Rightarrow> num_to_string lib (temperatureC m) @ degree_sign @ ''C'');
              icon = (case lastM of
                        None \<Rightarrow> emoji_green
                      | Some m \<Rightarrow>
                          if alertThreshold s < temperatureC m then emoji_red else emoji_green)
          in estado_loop lib ss
               (reporte @ icon @ '' *'' @ friendlyName s @ ''*: '' @ temp @ nl) w1)"

definition reporte_header :: string where
  "reporte_header = emoji_clipboard @ '' *REPORTE DE EQUIPOS*'' @ nl @ nl"

definition comando_estado ::
  "platform \<Rightarrow> user \<Rightarrow> string \<Rightarrow> world \<Rightarrow> (exn + unit) \<times> world" where
  "comando_estado lib usr from w =
     (case Sensor_find_enabled (user_id usr) w of
        (Inl e, w1) \<Rightarrow> (Inl e, w1)
      | (Inr ss, w1) \<Rightarrow>
          (case estado_loop lib ss reporte_header w1 of
             (Inl e, w2) \<Rightarrow> (Inl e, w2)
           | (Inr reporte, w2) \<Rightarrow> (Inr (), responderWhatsApp from reporte w2)))"

definition not_found_reply :: "string \<Rightarrow> string" where
  "not_found_reply busqueda =
     emoji_cross @ '' No encontr'' @ e_acute @ '' el equipo '' @ [CHR 0x22] @ busqueda @ [CHR 0x22]"

definition history_chart :: "platform \<Rightarrow> measurement list \<Rightarrow> chart_config" where
  "history_chart lib docs =
     \<lparr>chart_type = ''line'',
      chart_labels = rev (map (\<lambda>m. time_label lib (timestamp m)) docs),
      dataset_label = ''Temperatura '' @ degree_sign @ ''C'',
      dataset_data = rev (map temperatureC docs),
      borderColor = ''blue'',
      fill = True,
      backgroundColor = ''rgba(0,0,255,0.1)''\<rparr>"

text \<open>
  The \<open>historial\<close> command. \<open>new RegExp(busqueda, "i")\<close> throws a SyntaxError on a
  pattern that is not a regular expression, before the database is asked.
\<close>

definition comando_historial ::
  "platform \<Rightarrow> user \<Rightarrow> string \<Rightarrow> string \<Rightarrow> world \<Rightarrow> (exn + unit) \<times> world" where
  "comando_historial lib usr from txt w =
     (let busqueda = busqueda_of lib txt in
      case regexp_i lib busqueda of
        None \<Rightarrow> (Inl SyntaxError, w)
      | Some re \<Rightarrow>
          (case Sensor_findOne_matching (user_id usr) re w of
             (Inl e, w1) \<Rightarrow> (Inl e, w1)
           | (Inr None, w1) \<Rightarrow>
               (Inr (), responderWhatsApp from (not_found_reply busqueda) w1)
           | (Inr (Some sensor), w1) \<Rightarrow>
               (case Measurement_find (hardwareId sensor) 10 w1 of
                  (Inl e, w2) \<Rightarrow> (Inl e, w2)
                | (Inr docs, w2) \<Rightarrow>
                    if 0 < length docs then
                      (Inr (),
                       responderWhatsAppConImagen from (history_chart lib docs)
                         (emoji_chart @ '' Historial: '' @ friendlyName sensor) w2)
                    else (Inr (), w2))))"

text \<open>The body of the \<open>try\<close> block: the status it sends, or the exception it throws.\<close>

definition webhook_try ::
  "platform \<Rightarrow> webhook_body \<Rightarrow> world \<Rightarrow> (exn + nat) \<times> world" where
  "webhook_try lib rb w =
     (case body_data rb of
        None \<Rightarrow> (Inl TypeError, w)
      | Some d \<Rightarrow>
          (case data_message d of
             None \<Rightarrow> (Inr 200, w)
           | Some m \<Rightarrow>
               let txt = command_text lib m in
               (case data_key d of
                  None \<Rightarrow> (Inl TypeError, w)
                | Some k \<Rightarrow>
                    (case remoteJid k of
                       None \<Rightarrow> (Inl TypeError, w)
                     | Some jid \<Rightarrow>
                         let from = sender_of jid in
                         (case User_findOne_whatsapp from w of
                            (Inl e, w1) \<Rightarrow> (Inl e, w1)
                          | (Inr None, w1) \<Rightarrow> (Inr 200, w1)
                          | (Inr (Some usr), w1) \<Rightarrow>
                              let w2 = w1\<lparr>console := console w1 @ [LogCommand txt]\<rparr> in
                              (case (if txt = ''estado''
                                     then comando_estado lib usr from w2
                                     else (Inr (), w2)) of
                                 (Inl e, w3) \<Rightarrow> (Inl e, w3)
                               | (Inr u, w3) \<Rightarrow>
                                   (case (if startsWith txt ''historial''
                                          then comando_historial lib usr from txt w3
                                          else (Inr (), w3)) of
                                      (Inl e, w4) \<Rightarrow> (Inl e, w4)
                                    | (Inr u, w4) \<Rightarrow> (Inr 200, w4))))))))"

definition post_webhook_whatsapp ::
  "platform \<Rightarrow> webhook_body \<Rightarrow> world \<Rightarrow> response \<times> world" where
  "post_webhook_whatsapp lib rb w =
     (case webhook_try lib rb w of
        (Inl e, w1) \<Rightarrow> (Response 500 StatusText, w1)
      | (Inr st, w1) \<Rightarrow> (Response st StatusText, w1))"

section \<open>Sensor administration\<close>

text \<open>
  The handlers behind \<open>authenticateToken\<close> take \<open>caller\<close>, the user id of the verified
  token (\<open>req.user.id\<close>).
\<close>

record config_body =
  cfg_hardwareId :: string
  cfg_friendlyName :: "string option"
  cfg_alertThreshold :: "real option"
  cfg_lastAlertSent :: "int option option"

text \<open>
  \<open>{ ...req.body, owner: req.user.id, enabled: true }\<close> applied to a sensor document:
  the fields the body carries are set, then owner and enabled, whatever the body said
  about them.
\<close>

definition apply_sensorData :: "config_body \<Rightarrow> oid \<Rightarrow> sensor \<Rightarrow> sensor" where
  "apply_sensorData b caller s =
     s\<lparr>hardwareId := cfg_hardwareId b,
       friendlyName := (case cfg_friendlyName b of None \<Rightarrow> friendlyName s | Some n \<Rightarrow> n),
       alertThreshold := (case cfg_alertThreshold b of None \<Rightarrow> alertThreshold s | Some t \<Rightarrow> t),
       lastAlertSent := (case cfg_lastAlertSent b of None \<Rightarrow> lastAlertSent s | Some l \<Rightarrow> l),
       owner := caller,
       enabled := True\<rparr>"

text \<open>
  \<open>Sensor.findOneAndUpdate({ hardwareId }, sensorData, { upsert: true, new: true })\<close>.
  A document that is inserted starts from \<open>dflt\<close>, the defaults of the schema, which
  is not part of the sources.
\<close>

definition Sensor_findOneAndUpdate ::
  "sensor \<Rightarrow> config_body \<Rightarrow> oid \<Rightarrow> world \<Rightarrow> (exn + sensor) \<times> world" where
  "Sensor_findOneAndUpdate dflt b caller w =
     (case db_call w of
        (True, w1) \<Rightarrow> (Inl StorageError, w1)
      | (False, w1) \<Rightarrow>
          (case find_index (\<lambda>s. hardwareId s = cfg_hardwareId b) (sensors w1) of
             Some i \<Rightarrow>
               (Inr (apply_sensorData b caller (sensors w1 ! i)),
                w1\<lparr>sensors := (sensors w1)[i := apply_sensorData b caller (sensors w1 ! i)]\<rparr>)
           | None \<Rightarrow>
               (Inr (apply_sensorData b caller dflt),
                w1\<lparr>sensors := sensors w1 @ [apply_sensorData b caller dflt]\<rparr>)))"

definition post_sensors_config ::
  "sensor \<Rightarrow> oid \<Rightarrow> config_body \<Rightarrow> world \<Rightarrow> response \<times> world" where
  "post_sensors_config dflt caller b w =
     (case Sensor_findOneAndUpdate dflt b caller w of
        (Inl e, w1) \<Rightarrow> (Response 500 (JsonError ''Error al guardar''), w1)
      | (Inr s, w1) \<Rightarrow> (Response 200 (JsonSensor s), w1))"

text \<open>\<open>Sensor.findOne({ hardwareId: sensorId, owner: req.user.id })\<close>\<close>

definition Sensor_findOne_owned ::
  "string \<Rightarrow> oid \<Rightarrow> world \<Rightarrow> (exn + sensor option) \<times> world" where
  "Sensor_findOne_owned hid caller w =
     (case db_call w of
        (True, w1) \<Rightarrow> (Inl StorageError, w1)
      | (False, w1) \<Rightarrow>
          (Inr (find (\<lambda>s. hardwareId s = hid \<and> owner s = caller) (sensors w1)), w1))"

text \<open>
  GET /api/history, for a \<open>limit\<close> parameter that is absent or a natural number. The
  handler has no \<open>try\<close>: a rejected database call leaves the request unanswered.
\<close>

definition get_history :: "oid \<Rightarrow> string \<Rightarrow> nat option \<Rightarrow> world \<Rightarrow> response \<times> world" where
  "get_history caller hid lim_param w =
     (case Sensor_findOne_owned hid caller w of
        (Inl e, w1) \<Rightarrow> (NoResponse, w1)
      | (Inr None, w1) \<Rightarrow> (Response 403 (Text ''No autorizado''), w1)
      | (Inr (Some s), w1) \<Rightarrow>
          (case Measurement_find hid (case lim_param of None \<Rightarrow> 100 | Some n \<Rightarrow> n) w1 of
             (Inl e, w2) \<Rightarrow> (NoResponse, w2)
           | (Inr docs, w2) \<Rightarrow> (Response 200 (JsonDocs docs), w2)))"

fun remove_first :: "('a \<Rightarrow> bool) \<Rightarrow> 'a list \<Rightarrow> 'a list" where
  "remove_first P [] = []"
| "remove_first P (x # xs) = (if P x then xs else x # remove_first P xs)"

text \<open>\<open>Sensor.deleteOne({ hardwareId, owner: req.user.id })\<close>\<close>

definition Sensor_deleteOne :: "string \<Rightarrow> oid \<Rightarrow> world \<Rightarrow> (exn + unit) \<times> world" where
  "Sensor_deleteOne hid caller w =
     (case db_call w of
        (True, w1) \<Rightarrow> (Inl StorageError, w1)
      | (False, w1) \<Rightarrow>
          (Inr (),
           w1\<lparr>sensors := remove_first (\<lambda>s. hardwareId s = hid \<and> owner s = caller) (sensors w1)\<rparr>))"

text \<open>\<open>Measurement.deleteMany({ sensorId: hardwareId })\<close>\<close>

definition Measurement_deleteMany :: "string \<Rightarrow> world \<Rightarrow> (exn + unit) \<times> world" where
  "Measurement_deleteMany hid w =
     (case db_call w of
        (True, w1) \<Rightarrow> (Inl StorageError, w1)
      | (False, w1) \<Rightarrow>
          (Inr (), w1\<lparr>measurements := filter (\<lambda>m. sensorId m \<noteq> hid) (measurements w1)\<rparr>))"

text \<open>DELETE /api/sensors/:hardwareId, also without a \<open>try\<close>.\<close>

definition delete_sensor :: "oid \<Rightarrow> string \<Rightarrow> world \<Rightarrow> response \<times> world" where
  "delete_sensor caller hid w =
     (case Sensor_deleteOne hid caller w of
        (Inl e, w1) \<Rightarrow> (NoResponse, w1)
      | (Inr u, w1) \<Rightarrow>
          (case Measurement_deleteMany hid w1 of
             (Inl e, w2) \<Rightarrow> (NoResponse, w2)
           | (Inr u, w2) \<Rightarrow> (Response 200 (JsonMessage ''Eliminado''), w2)))"

section \<open>Sequences of requests, and the oracles seen from outside\<close>


text \<open>
  \<open>db_fault_at w k\<close>: the database operation number \<open>k\<close> from now on (counting from 0)
  is one that rejects. \<open>db_step\<close> and \<open>net_step\<close> are the world after one database
  operation or one post has taken its flag.
\<close>

definition db_fault_at :: "world \<Rightarrow> nat \<Rightarrow> bool" where
  "db_fault_at w k = (k < length (db_faults w) \<and> db_faults w ! k)"

definition db_step :: "world \<Rightarrow> world" where
  "db_step w = w\<lparr>db_faults := tl (db_faults w)\<rparr>"

definition net_step :: "world \<Rightarrow> world" where
  "net_step w = w\<lparr>net_faults := tl (net_faults w)\<rparr>"

section \<open>A platform and a store for the examples\<close>

text \<open>
  \<open>trim\<close> and \<open>toLowerCase\<close> as they act on a string of ASCII characters: the white
  space of ASCII is tab, line feed, vertical tab, form feed, carriage return and
  space, and its upper-case letters are A to Z. On other strings these are not the
  functions of JavaScript; the examples use them on ASCII text only, and the theorems
  do not use them at all.
\<close>

definition ascii_ws :: "char \<Rightarrow> bool" where
  "ascii_ws c = (c \<in> set [CHR 0x09, CHR 0x0A, CHR 0x0B, CHR 0x0C, CHR 0x0D, CHR 0x20])"

definition ascii_trim :: "string \<Rightarrow> string" where
  "ascii_trim s = rev (dropWhile ascii_ws (rev (dropWhile ascii_ws s)))"

definition ascii_lower_char :: "char \<Rightarrow> char" where
  "ascii_lower_char c =
     (let n = (of_char c :: nat) in if 65 \<le> n \<and> n \<le> 90 then char_of (n + 32) else c)"

definition ascii_toLowerCase :: "string \<Rightarrow> string" where
  "ascii_toLowerCase s = map ascii_lower_char s"

text \<open>
  The conversion of a string of ASCII characters to a number, after the grammar of
  \<open>StringNumericLiteral\<close>: hexadecimal, octal and binary integers without sign, and
  signed decimal literals with an optional fraction and exponent, or \<open>Infinity\<close>.
\<close>

definition digit_val :: "char \<Rightarrow> nat option" where
  "digit_val c =
     (let n = (of_char c :: nat) in
      if 48 \<le> n \<and> n \<le> 57 then Some (n - 48)
      else if 97 \<le> n \<and> n \<le> 102 then Some (n - 87)
      else if 65 \<le> n \<and> n \<le> 70 then Some (n - 55)
      else None)"

definition is_digit_in :: "nat \<Rightarrow> char \<Rightarrow> bool" where
  "is_digit_in base c = (case digit_val c of None \<Rightarrow> False | Some d \<Rightarrow> d < base)"

definition digits_value :: "nat \<Rightarrow> string \<Rightarrow> nat" where
  "digits_value base ds =
     foldl (\<lambda>a c. a * base + (case digit_val c of None \<Rightarrow> 0 | Some d \<Rightarrow> d)) 0 ds"

definition parse_radix :: "nat \<Rightarrow> string \<Rightarrow> jsnum" where
  "parse_radix base ds =
     (if ds \<noteq> [] \<and> list_all (is_digit_in base) ds
      then Fin (real (digits_value base ds)) else NaN)"

definition parse_exponent :: "string \<Rightarrow> int option" where
  "parse_exponent s =
     (let neg = (s \<noteq> [] \<and> hd s = CHR ''-'');
          ds = (if s \<noteq> [] \<and> (hd s = CHR ''-'' \<or> hd s = CHR ''+'') then tl s else s)
      in if ds \<noteq> [] \<and> list_all (is_digit_in 10) ds
         then Some (if neg then - int (digits_value 10 ds) else int (digits_value 10 ds))
         else None)"

definition pow10 :: "int \<Rightarrow> real" where
  "pow10 e = (if 0 \<le> e then 10 ^ nat e else 1 / 10 ^ nat (- e))"

definition parse_unsigned_decimal :: "string \<Rightarrow> jsnum" where
  "parse_unsigned_decimal s =
     (if s = ''Infinity'' then PInf
      else
        let ip = takeWhile (is_digit_in 10) s;
            r1 = dropWhile (is_digit_in 10) s;
            dot = (r1 \<noteq> [] \<and> hd r1 = CHR ''.'');
            fp = (if dot then takeWhile (is_digit_in 10) (tl r1) else []);
            r2 = (if dot then dropWhile (is_digit_in 10) (tl r1) else r1);
            mant = real (digits_value 10 (ip @ fp)) / 10 ^ length fp
        in if ip = [] \<and> fp = [] then NaN
           else if r2 = [] then Fin mant
           else if hd r2 = CHR ''e'' \<or> hd r2 = CHR ''E'' then
             (case parse_exponent (tl r2) of
                None \<Rightarrow> NaN
              | Some e \<Rightarrow> Fin (mant * pow10 e))
           else NaN)"

definition parse_signed_decimal :: "string \<Rightarrow> jsnum" where
  "parse_signed_decimal s =
     (if s \<noteq> [] \<and> hd s = CHR ''+'' then parse_unsigned_decimal (tl s)
      else if s \<noteq> [] \<and> hd s = CHR ''-'' then js_neg (parse_unsigned_decimal (tl s))
      else parse_unsigned_decimal s)"

text \<open>
  White space around the literal is dropped, the empty string is 0, a string that is
  no numeric literal is NaN, and the value of a literal is rounded to a double.
\<close>

definition ascii_to_number :: "string \<Rightarrow> jsnum" where
  "ascii_to_number str =
     (let s = ascii_trim str in
      case (if s = [] then Fin 0
            else if take 2 s = ''0x'' \<or> take 2 s = ''0X'' then parse_radix 16 (drop 2 s)
            else if take 2 s = ''0o'' \<or> take 2 s = ''0O'' then parse_radix 8 (drop 2 s)
            else if take 2 s = ''0b'' \<or> take 2 s = ''0B'' then parse_radix 2 (drop 2 s)
            else parse_signed_decimal s) of
        Fin x \<Rightarrow> round_double x
      | v \<Rightarrow> v)"

definition digit_char :: "nat \<Rightarrow> char" where
  "digit_char d = char_of (48 + d)"

fun show_nat :: "nat \<Rightarrow> string" where
  "show_nat n = (if n < 10 then [digit_char n] else show_nat (n div 10) @ [digit_char (n mod 10)])"

definition show_int :: "int \<Rightarrow> string" where
  "show_int i = (if i < 0 then ''-'' @ show_nat (nat (- i)) else show_nat (nat i))"

definition two_digits :: "nat \<Rightarrow> string" where
  "two_digits n = [digit_char (n div 10 mod 10), digit_char (n mod 10)]"

definition utc_time_label :: "int \<Rightarrow> string" where
  "utc_time_label t =
     (let s = nat ((t div 1000) mod 86400)
      in two_digits (s div 3600) @ '':'' @ two_digits (s div 60 mod 60) @ '':'' @ two_digits (s mod 60))"

fun contains :: "string \<Rightarrow> string \<Rightarrow> bool" where
  "contains [] p = (p = [])"
| "contains (c # cs) p = (startsWith (c # cs) p \<or> contains cs p)"

definition literal_char :: "char \<Rightarrow> bool" where
  "literal_char c =
     (let n = (of_char c :: nat)
      in (48 \<le> n \<and> n \<le> 57) \<or> (65 \<le> n \<and> n \<le> 90) \<or> (97 \<le> n \<and> n \<le> 122) \<or> n = 32)"

definition literal_regexp :: "string \<Rightarrow> (string \<Rightarrow> bool) option" where
  "literal_regexp p =
     (if list_all literal_char p
      then Some (\<lambda>s. contains (ascii_toLowerCase s) (ascii_toLowerCase p))
      else None)"

text \<open>
  The platform of the examples is the runtime seen on ASCII text. It prints a whole
  number in decimal, labels an instant with its UTC time of day, lower-cases, trims
  and converts to a number as above, and compiles a pattern of letters, digits and
  spaces, which matches as a substring without regard to case. It compiles no other
  pattern: the examples use it on patterns of that kind and on \<open>(\<close>, which JavaScript
  rejects too.
\<close>

definition example_platform :: platform where
  "example_platform =
     \<lparr>num_to_string = (\<lambda>x. show_int \<lfloor>x\<rfloor>),
      time_label = utc_time_label,
      regexp_i = literal_regexp,
      to_lower_case = ascii_toLowerCase,
      trim = ascii_trim,
      to_number = ascii_to_number\<rparr>"

definition ana :: user where
  "ana = \<lparr>user_id = 1, username = ''ana'', password = ''$2a$10$hashA'',
          whatsapp = Some ''5491100000001''\<rparr>"

definition beto :: user where
  "beto = \<lparr>user_id = 2, username = ''beto'', password = ''$2a$10$hashB'',
           whatsapp = Some ''5491100000002''\<rparr>"

definition freezer :: sensor where
  "freezer = \<lparr>hardwareId = ''HELADERA-01'', friendlyName = ''Freezer Carnes'',
              alertThreshold = 8, owner = 1, enabled = True, lastAlertSent = Some 0\<rparr>"

definition reading :: "int \<Rightarrow> real \<Rightarrow> measurement" where
  "reading t c = \<lparr>sensorId = ''HELADERA-01'', temperatureC = c, voltageV = 5, timestamp = t\<rparr>"

definition example_world :: world where
  "example_world =
     \<lparr>users = [ana, beto],
      sensors = [freezer],
      measurements = [reading 1000 4, reading 3000 6, reading 2000 5],
      outbox = [],
      console = [],
      db_faults = [],
      net_faults = []\<rparr>"

definition hot_reading :: data_req where
  "hot_reading = \<lparr>req_sensorId = ''HELADERA-01'', req_tempC = 12, req_voltageV = 5\<rparr>"

definition chat_message :: "string \<Rightarrow> string \<Rightarrow> webhook_body" where
  "chat_message jid txt =
     \<lparr>body_data = Some \<lparr>data_message = Some \<lparr>conversation = Some txt, extendedTextMessage = None\<rparr>,
                          data_key = Some \<lparr>remoteJid = Some jid\<rparr>\<rparr>\<rparr>"

text \<open>Schema defaults for the examples, and a configuration request for the freezer.\<close>

definition blank_sensor :: sensor where
  "blank_sensor = \<lparr>hardwareId = [], friendlyName = [], alertThreshold = 0, owner = 0,
                    enabled = True, lastAlertSent = None\<rparr>"

definition takeover :: config_body where
  "takeover = \<lparr>cfg_hardwareId = ''HELADERA-01'', cfg_friendlyName = Some ''Mi heladera'',
                cfg_alertThreshold = None, cfg_lastAlertSent = None\<rparr>"

text \<open>The example store with a database that rejects its next operation.\<close>

definition db_down :: world where
  "db_down = example_world\<lparr>db_faults := [True]\<rparr>"

text \<open>The example store with a chat API that rejects the next post.\<close>

definition send_fails :: world where
  "send_fails = example_world\<lparr>net_faults := [True]\<rparr>"

text \<open>The example store with a database that rejects its third operation.\<close>

definition save_rejected :: world where
  "save_rejected = example_world\<lparr>db_faults := [False, False, True]\<rparr>"

text \<open>
  The freezer with two measurements taken at the same instant, with the same
  temperature and different voltages.
\<close>

definition twin_readings :: world where
  "twin_readings = example_world\<lparr>measurements := [reading 1000 4, (reading 1000 4)\<lparr>voltageV := 3\<rparr>]\<rparr>"

text \<open>The example store without any measurement.\<close>

definition no_readings :: world where
  "no_readings = example_world\<lparr>measurements := []\<rparr>"

section \<open>Rounding to a double\<close>

lemma pow2_powr: "pow2 k = 2 powr (of_int k)"
  by (simp add: pow2_def powr_real_of_int inverse_eq_divide)

lemma pow2_pos [simp]: "0 < pow2 k"
  by (simp add: pow2_powr)

lemma floor_log2_eq:
  assumes "pow2 e \<le> x" and "x < pow2 (e + 1)"
  shows "\<lfloor>log 2 x\<rfloor> = e"
proof -
  have "0 < x" using assms(1) pow2_pos [of e] by linarith
  then show ?thesis
    using assms by (simp add: floor_log_eq_powr_iff pow2_powr)
qed

lemma binary_exponent_bounds:
  assumes "0 < x"
  shows "pow2 (binary_exponent x) \<le> x \<and> x < pow2 (binary_exponent x + 1)"
proof (cases "1 \<le> x")
  case True
  let ?m = "\<lfloor>x\<rfloor>"
  let ?b = "bitlen ?m"
  have m: "0 < ?m" using True by simp
  from bitlen_bounds [OF m] have lo: "2 ^ nat (?b - 1) \<le> ?m" and hi: "?m < 2 ^ nat ?b" by simp_all
  have b1: "1 \<le> ?b" using m by (simp add: bitlen_alt_def)
  have "(2 :: real) ^ nat (?b - 1) \<le> of_int ?m"
  proof -
    from lo have "(of_int (2 ^ nat (?b - 1)) :: real) \<le> of_int ?m" by (simp only: of_int_le_iff)
    then show ?thesis by simp
  qed
  also have "\<dots> \<le> x" by simp
  finally have l: "pow2 (?b - 1) \<le> x" using b1 by (simp add: pow2_def)
  from hi have "?m + 1 \<le> 2 ^ nat ?b" by simp
  then have "(of_int (?m + 1) :: real) \<le> of_int (2 ^ nat ?b)" by (simp only: of_int_le_iff)
  then have "of_int ?m + 1 \<le> (2 :: real) ^ nat ?b" by simp
  moreover have "x < of_int ?m + 1" by linarith
  ultimately have "x < 2 ^ nat ?b" by linarith
  then have h: "x < pow2 (?b - 1 + 1)" using b1 by (simp add: pow2_def)
  from l h True show ?thesis by (simp add: binary_exponent_def)
next
  case False
  let ?y = "1 / x"
  let ?k = "\<lceil>?y\<rceil> - 1"
  let ?b = "bitlen ?k"
  have y1: "1 < ?y" using False assms by simp
  then have "1 < \<lceil>?y\<rceil>" by (simp add: less_ceiling_iff)
  then have k: "0 < ?k" by simp
  from bitlen_bounds [OF k] have lo: "2 ^ nat (?b - 1) \<le> ?k" and hi: "?k < 2 ^ nat ?b" by simp_all
  have b1: "1 \<le> ?b" using k by (simp add: bitlen_alt_def)
  from hi have "\<lceil>?y\<rceil> \<le> 2 ^ nat ?b" by simp
  then have "(of_int \<lceil>?y\<rceil> :: real) \<le> of_int (2 ^ nat ?b)" by (simp only: of_int_le_iff)
  then have "(of_int \<lceil>?y\<rceil> :: real) \<le> 2 ^ nat ?b" by (simp only: of_int_power of_int_numeral)
  then have "?y \<le> 2 ^ nat ?b" using le_of_int_ceiling [of ?y] by linarith
  then have "1 / 2 ^ nat ?b \<le> x"
    using assms by (simp add: field_simps)
  then have l: "pow2 (- ?b) \<le> x" using b1 by (simp add: pow2_def)
  from lo have "(of_int (2 ^ nat (?b - 1)) :: real) \<le> of_int ?k" by (simp only: of_int_le_iff)
  then have "(2 :: real) ^ nat (?b - 1) \<le> of_int \<lceil>?y\<rceil> - 1"
    by (simp only: of_int_power of_int_numeral of_int_diff of_int_1)
  moreover have "of_int \<lceil>?y\<rceil> - 1 < ?y" using ceiling_correct [of ?y] by linarith
  ultimately have "(2 :: real) ^ nat (?b - 1) < ?y" by linarith
  then have "x < 1 / 2 ^ nat (?b - 1)"
    using assms by (simp add: field_simps)
  moreover have "pow2 (- ?b + 1) = 1 / 2 ^ nat (?b - 1)"
    using b1 by (cases "?b = 1") (simp_all add: pow2_def)
  ultimately have h: "x < pow2 (- ?b + 1)" by simp
  from l h False show ?thesis by (simp add: binary_exponent_def)
qed

lemma binary_exponent_log: "0 < x \<Longrightarrow> binary_exponent x = \<lfloor>log 2 x\<rfloor>"
  using binary_exponent_bounds [of x] floor_log2_eq [of "binary_exponent x" x] by simp

lemma binary_exponent_eq:
  assumes "pow2 e \<le> x" and "x < pow2 (e + 1)"
  shows "binary_exponent x = e"
proof -
  have "0 < x" using assms(1) pow2_pos [of e] by linarith
  then show ?thesis using floor_log2_eq [OF assms] by (simp add: binary_exponent_log)
qed

lemma round_half_even_int [simp]: "round_half_even (of_int k) = k"
  by (simp add: round_half_even_def)


lemma round_double_eval:
  assumes "x \<noteq> 0" and "pow2 e \<le> \<bar>x\<bar>" and "\<bar>x\<bar> < pow2 (e + 1)" and "- 1022 \<le> e"
    and "r = of_int (round_half_even (x / pow2 (e - 52))) * pow2 (e - 52)"
    and "\<bar>r\<bar> < 2 ^ 1024"
  shows "round_double x = Fin r"
proof -
  have e: "binary_exponent \<bar>x\<bar> = e" using assms(2,3) by (rule binary_exponent_eq)
  have m: "max e (- 1022) = e" using assms(4) by simp
  have b: "\<not> 2 ^ 1024 \<le> r" "\<not> r \<le> - (2 ^ 1024)" using assms(6) by linarith+
  show ?thesis
    unfolding round_double_def Let_def e m assms(5) [symmetric]
    by (simp only: assms(1) b if_False)
qed

text \<open>Every integer of magnitude below \<open>2 ^ 53\<close> is a double.\<close>

lemma round_double_of_int:
  assumes "\<bar>n\<bar> < 2 ^ 53"
  shows "round_double (of_int n) = Fin (of_int n)"
proof (cases "n = 0")
  case True
  then show ?thesis by (simp add: round_double_def)
next
  case False
  let ?x = "of_int n :: real"
  let ?e = "\<lfloor>log 2 \<bar>?x\<bar>\<rfloor>"
  have n1: "1 \<le> \<bar>n\<bar>" using False by linarith
  have a1: "1 \<le> \<bar>?x\<bar>"
  proof -
    from n1 have "(of_int 1 :: real) \<le> of_int \<bar>n\<bar>" by (simp only: of_int_le_iff)
    then show ?thesis by simp
  qed
  have a2: "\<bar>?x\<bar> < 2 ^ 53"
  proof -
    from assms have "(of_int \<bar>n\<bar> :: real) < of_int (2 ^ 53)" by (simp only: of_int_less_iff)
    then show ?thesis by simp
  qed
  have e0: "0 \<le> ?e"
    using a1 by (simp add: zero_le_log_cancel_iff)
  have "log 2 \<bar>?x\<bar> < 53"
    using a1 a2 by (simp add: log_less_iff)
  then have e52: "?e \<le> 52"
    by (simp add: floor_le_iff)
  define k where "k = nat (52 - ?e)"
  have be: "binary_exponent \<bar>?x\<bar> = ?e"
    using a1 by (simp add: binary_exponent_log)
  have u: "pow2 (max (binary_exponent \<bar>?x\<bar>) (- 1022) - 52) = 1 / 2 ^ k"
    unfolding be using e0 e52 by (auto simp: pow2_def k_def max_def)
  have q: "?x / (1 / 2 ^ k) = of_int (n * 2 ^ k)"
    by simp
  have r: "of_int (round_half_even (?x / (1 / 2 ^ k))) * (1 / 2 ^ k) = ?x"
    unfolding q round_half_even_int by simp
  have b1: "\<not> (2 :: real) ^ 1024 \<le> ?x"
  proof -
    have "?x < 2 ^ 53" using a2 by linarith
    also have "(2 :: real) ^ 53 \<le> 2 ^ 1024" by (rule power_increasing) simp_all
    finally show ?thesis by simp
  qed
  have b2: "\<not> ?x \<le> - ((2 :: real) ^ 1024)"
  proof -
    have "- ((2 :: real) ^ 53) < ?x" using a2 by linarith
    moreover have "(2 :: real) ^ 53 \<le> 2 ^ 1024" by (rule power_increasing) simp_all
    ultimately show ?thesis by linarith
  qed
  have x0: "?x \<noteq> 0" using False by simp
  show ?thesis
    unfolding round_double_def Let_def u r
    by (simp only: x0 b1 b2 if_False)
qed


lemma elapsed_exact:
  "\<bar>now - l\<bar> < 2 ^ 53 \<Longrightarrow> js_sub (date_value now) (date_value l) = Fin (real_of_int (now - l))"
  using round_double_of_int [of "now - l"] by (simp add: date_value_def)


lemma thirty_minutes: "round_double 1800000 = Fin 1800000"
  using round_double_of_int [of 1800000] by simp

text \<open>
  The rounding at work: the double nearest to 4.1, and its product with 60000, which
  is below 246000.
\<close>

lemma double_4_1: "round_double (41 / 10) = Fin (2308094809027379 / 2 ^ 49)"
  by (rule round_double_eval [where e = 2]) (simp_all add: pow2_def round_half_even_def)

lemma window_4_1:
  "js_mul (Fin (2308094809027379 / 2 ^ 49)) (Fin 60000) = Fin (8452495638527999 / 2 ^ 35)"
  "js_gt (Fin 246000) (Fin (8452495638527999 / 2 ^ 35))"
proof -
  have "round_double (2308094809027379 / 2 ^ 49 * 60000) = Fin (8452495638527999 / 2 ^ 35)"
    by (rule round_double_eval [where e = 17]) (simp_all add: pow2_def round_half_even_def)
  then show "js_mul (Fin (2308094809027379 / 2 ^ 49)) (Fin 60000) = Fin (8452495638527999 / 2 ^ 35)"
    by simp
  show "js_gt (Fin 246000) (Fin (8452495638527999 / 2 ^ 35))"
    by simp
qed

section \<open>Facts about the operations\<close>

lemma db_call_eq: "db_call w = (db_fault_at w 0, db_step w)"
  by (cases "db_faults w") (simp_all add: db_call_def db_fault_at_def db_step_def)

lemma net_call_eq: "net_call w = (net_faults w \<noteq> [] \<and> hd (net_faults w), net_step w)"
  by (cases "net_faults w") (simp_all add: net_call_def net_step_def)

lemma db_fault_at_step [simp]: "db_fault_at (db_step w) k = db_fault_at w (Suc k)"
  by (cases "db_faults w") (simp_all add: db_fault_at_def db_step_def)

lemma db_step_fields [simp]:
  "users (db_step w) = users w" "sensors (db_step w) = sensors w"
  "measurements (db_step w) = measurements w" "outbox (db_step w) = outbox w"
  "console (db_step w) = console w" "net_faults (db_step w) = net_faults w"
  by (simp_all add: db_step_def)

lemma db_fault_at_upd [simp]:
  "db_fault_at (w\<lparr>users := us\<rparr>) k = db_fault_at w k"
  "db_fault_at (w\<lparr>sensors := ss\<rparr>) k = db_fault_at w k"
  "db_fault_at (w\<lparr>measurements := ms\<rparr>) k = db_fault_at w k"
  "db_fault_at (w\<lparr>outbox := ob\<rparr>) k = db_fault_at w k"
  "db_fault_at (w\<lparr>console := co\<rparr>) k = db_fault_at w k"
  "db_fault_at (w\<lparr>net_faults := nf\<rparr>) k = db_fault_at w k"
  by (simp_all add: db_fault_at_def)

lemma responderWhatsApp_fields [simp]:
  "users (responderWhatsApp n t w) = users w"
  "sensors (responderWhatsApp n t w) = sensors w"
  "measurements (responderWhatsApp n t w) = measurements w"
  "outbox (responderWhatsApp n t w) = outbox w @ [SendText n t]"
  "db_faults (responderWhatsApp n t w) = db_faults w"
  by (simp_all add: responderWhatsApp_def net_call_eq net_step_def Let_def)

lemma db_fault_at_responder [simp]:
  "db_fault_at (responderWhatsApp n t w) k = db_fault_at w k"
  by (simp add: db_fault_at_def)

lemma find_index_Some: "find_index P xs = Some i \<Longrightarrow> i < length xs \<and> P (xs ! i)"
  by (induction xs arbitrary: i) (auto split: if_splits)

lemma find_index_None: "(find_index P xs = None) = (\<forall>x\<in>set xs. \<not> P x)"
  by (induction xs) auto

lemma truthy_iff: "truthy v = (\<exists>s. v = Some s \<and> s \<noteq> [])"
  by (cases v) (simp_all add: truthy_def)

lemma Sensor_findOne_populate_eq:
  "Sensor_findOne_populate hid w =
     (if db_fault_at w 0 then (Inl StorageError, db_step w)
      else (Inr (case find_index (\<lambda>s. hardwareId s = hid) (sensors w) of
                   None \<Rightarrow> None
                 | Some i \<Rightarrow> Some (i, sensors w ! i,
                     find (\<lambda>u. user_id u = owner (sensors w ! i)) (users w))),
            db_step w))"
  by (simp add: Sensor_findOne_populate_def db_call_eq split: option.splits)

lemma Measurement_save_eq:
  "Measurement_save m w =
     (if db_fault_at w 0 then (Inl StorageError, db_step w)
      else (Inr (), (db_step w)\<lparr>measurements := measurements w @ [m]\<rparr>))"
  by (simp add: Measurement_save_def db_call_eq)

lemma Sensor_save_eq:
  "Sensor_save i s w =
     (if db_fault_at w 0 then (Inl StorageError, db_step w)
      else (Inr (), (db_step w)\<lparr>sensors := (sensors w)[i := s]\<rparr>))"
  by (simp add: Sensor_save_def db_call_eq)

subsection \<open>The example store\<close>

lemma ex_find_freezer:
  "find_index (\<lambda>s. hardwareId s = req_sensorId hot_reading) (sensors example_world) = Some 0"
  by (simp add: example_world_def freezer_def hot_reading_def)

lemma ex_find_ana:
  "find (\<lambda>u. user_id u = owner (sensors example_world ! 0)) (users example_world) = Some ana"
  by (simp add: example_world_def freezer_def ana_def)

lemma ex_no_faults: "\<not> db_fault_at example_world k"
  by (simp add: db_fault_at_def example_world_def)

lemma ex_freezer_fields:
  "lastAlertSent (sensors example_world ! 0) = Some 0"
  "alertThreshold (sensors example_world ! 0) = 8"
  "req_tempC hot_reading = 12"
  by (simp_all add: example_world_def freezer_def hot_reading_def)

lemma cooldownMs_unset:
  "ALERT_COOLDOWN ev = None \<or> ALERT_COOLDOWN ev = Some [] \<Longrightarrow> cooldownMs lib ev = Fin 1800000"
  by (auto simp: cooldownMs_def thirty_minutes)

lemma cooldownMs_default: "cooldownMs example_platform \<lparr>ALERT_COOLDOWN = None\<rparr> = Fin 1800000"
  by (simp add: cooldownMs_unset)

lemma ex_platform_fields:
  "trim example_platform = ascii_trim"
  "to_lower_case example_platform = ascii_toLowerCase"
  "to_number example_platform = ascii_to_number"
  "regexp_i example_platform = literal_regexp"
  by (simp_all add: example_platform_def)

lemma ex_elapsed:
  "js_sub (date_value 1800001) (date_value 0) = Fin 1800001"
  "js_sub (date_value 1800000) (date_value 0) = Fin 1800000"
  "js_sub (date_value 3600000) (date_value 0) = Fin 3600000"
  using elapsed_exact [of 1800001 0] elapsed_exact [of 1800000 0] elapsed_exact [of 3600000 0]
  by simp_all

lemma ex_abc: "to_number example_platform ''abc'' = NaN"
  by (simp add: example_platform_def ascii_to_number_def ascii_trim_def ascii_ws_def
        parse_signed_decimal_def parse_unsigned_decimal_def is_digit_in_def digit_val_def)

lemma cooldownMs_abc: "cooldownMs example_platform \<lparr>ALERT_COOLDOWN = Some ''abc''\<rparr> = NaN"
  by (simp add: cooldownMs_def ex_abc)

text \<open>
  With \<open>ALERT_COOLDOWN=4.1\<close> the window is the double below 246000 that the
  multiplication yields, 245999.99999999997.
\<close>

lemma ex_4_1: "to_number example_platform ''4.1'' = Fin (2308094809027379 / 2 ^ 49)"
proof -
  have "ascii_to_number ''4.1'' = round_double (41 / 10)"
    by (simp add: ascii_to_number_def ascii_trim_def ascii_ws_def parse_signed_decimal_def
          parse_unsigned_decimal_def is_digit_in_def digit_val_def digits_value_def Let_def)
  then show ?thesis
    by (simp add: ex_platform_fields double_4_1)
qed

lemma cooldownMs_4_1:
  "cooldownMs example_platform \<lparr>ALERT_COOLDOWN = Some ''4.1''\<rparr> = Fin (8452495638527999 / 2 ^ 35)"
proof -
  have "cooldownMs example_platform \<lparr>ALERT_COOLDOWN = Some ''4.1''\<rparr>
          = js_mul (to_number example_platform ''4.1'') (Fin 60000)"
    by (simp add: cooldownMs_def)
  then show ?thesis
    by (simp only: ex_4_1 window_4_1(1))
qed

lemma ex_elapsed_246000: "js_sub (date_value 246000) (date_value 0) = Fin 246000"
  using elapsed_exact [of 246000 0] by simp

lemma twin_fields:
  "users twin_readings = users example_world" "sensors twin_readings = sensors example_world"
  "measurements twin_readings = [reading 1000 4, (reading 1000 4)\<lparr>voltageV := 3\<rparr>]" "outbox twin_readings = []"
  "\<not> db_fault_at twin_readings k"
  by (simp_all add: twin_readings_def example_world_def db_fault_at_def)

lemma ex_ana_contact: "whatsapp ana = Some ''5491100000001''" "''5491100000001'' \<noteq> []"
  by (simp_all add: ana_def)

lemma ex_sensors: "sensors example_world = [freezer]" "friendlyName freezer = ''Freezer Carnes''"
  by (simp_all add: example_world_def freezer_def)

lemma send_fails_fields:
  "sensors send_fails = sensors example_world" "users send_fails = users example_world"
  "outbox send_fails = []" "\<not> db_fault_at send_fails k"
  by (simp_all add: send_fails_def example_world_def db_fault_at_def)

lemma save_rejected_fields:
  "sensors save_rejected = sensors example_world" "users save_rejected = users example_world"
  "outbox save_rejected = []"
  "\<not> db_fault_at save_rejected 0" "\<not> db_fault_at save_rejected 1" "db_fault_at save_rejected 2"
  by (simp_all add: save_rejected_def example_world_def db_fault_at_def)

section \<open>The ingest handler\<close>

text \<open>
  What the handler posts when the sensor is found, its owner has a contact string and
  the measurement is stored.
\<close>

lemma post_api_data_found:
  assumes "\<not> db_fault_at w 0" "\<not> db_fault_at w 1"
    and "find_index (\<lambda>s. hardwareId s = req_sensorId req) (sensors w) = Some i"
    and "find (\<lambda>u. user_id u = owner (sensors w ! i)) (users w) = Some u"
    and "whatsapp u = Some number" "number \<noteq> []"
  shows "outbox (snd (post_api_data lib ev now req w)) =
           outbox w @
           (if alertThreshold (sensors w ! i) < req_tempC req \<and>
               (case lastAlertSent (sensors w ! i) of
                  None \<Rightarrow> True
                | Some l \<Rightarrow> js_gt (js_sub (date_value now) (date_value l)) (cooldownMs lib ev))
            then [SendText number (alert_mensaje lib (friendlyName (sensors w ! i)) (req_tempC req))]
            else [])"
  using assms
  by (simp add: post_api_data_def Sensor_findOne_populate_eq Measurement_save_eq
        Sensor_save_eq contact_of_def sendWhatsAppAlert_def)

text \<open>
  C1. When the lookup finds the sensor, the measurement is stored and the owner of the
  sensor has a contact string, the handler posts an alert exactly when the reported
  temperature is greater than the threshold of the sensor and either lastAlertSent is
  null or \<open>now - lastAlertSent\<close> is greater than the cooldown window, the difference
  and the window being the doubles that JavaScript computes. Both comparisons are
  strict (\<open>js_gt (Fin a) (Fin b)\<close> is \<open>b < a\<close>): when the window is the number \<open>c\<close>
  and the two instants are less than \<open>2 ^ 53\<close> ms apart, the test on the time is
  \<open>c < now - lastAlertSent\<close>.
\<close>

theorem alert_decision_iff:
  assumes "\<not> db_fault_at w 0" and "\<not> db_fault_at w 1"
    and "find_index (\<lambda>s. hardwareId s = req_sensorId req) (sensors w) = Some i"
    and "find (\<lambda>u. user_id u = owner (sensors w ! i)) (users w) = Some u"
    and "truthy (whatsapp u)"
  shows "(outbox (snd (post_api_data lib ev now req w)) \<noteq> outbox w) =
         (alertThreshold (sensors w ! i) < req_tempC req \<and>
          (case lastAlertSent (sensors w ! i) of
             None \<Rightarrow> True
           | Some l \<Rightarrow> js_gt (js_sub (date_value now) (date_value l)) (cooldownMs lib ev)))
       \<and> (\<forall>l c. lastAlertSent (sensors w ! i) = Some l \<and> cooldownMs lib ev = Fin c
              \<and> \<bar>now - l\<bar> < 2 ^ 53 \<longrightarrow>
              (outbox (snd (post_api_data lib ev now req w)) \<noteq> outbox w) =
              (alertThreshold (sensors w ! i) < req_tempC req \<and> c < real_of_int (now - l)))"
proof -
  from assms(5) obtain number where n: "whatsapp u = Some number" "number \<noteq> []"
    by (auto simp: truthy_iff)
  have a: "(outbox (snd (post_api_data lib ev now req w)) \<noteq> outbox w) =
         (alertThreshold (sensors w ! i) < req_tempC req \<and>
          (case lastAlertSent (sensors w ! i) of
             None \<Rightarrow> True
           | Some l \<Rightarrow> js_gt (js_sub (date_value now) (date_value l)) (cooldownMs lib ev)))"
    by (simp add: post_api_data_found [OF assms(1-4) n])
  have b: "(outbox (snd (post_api_data lib ev now req w)) \<noteq> outbox w) =
              (alertThreshold (sensors w ! i) < req_tempC req \<and> c < real_of_int (now - l))"
    if "lastAlertSent (sensors w ! i) = Some l \<and> cooldownMs lib ev = Fin c \<and> \<bar>now - l\<bar> < 2 ^ 53"
    for l c
  proof -
    from that have e: "js_sub (date_value now) (date_value l) = Fin (real_of_int (now - l))"
      by (simp add: elapsed_exact)
    from that show ?thesis
      unfolding a by (simp add: e)
  qed
  from a b show ?thesis by blast
qed

text \<open>
  In the example store the freezer has threshold 8 and was last alerted at instant 0.
  With the default window, 1800000 ms, a reading of 12 alerts at 1800001 and not at
  1800000, and a reading of 8 does not alert. With \<open>ALERT_COOLDOWN=4.1\<close> a reading
  of 12 alerts at 246000, the window being the double just below.
\<close>

theorem alert_decision_iff_witness:
  "\<not> db_fault_at example_world 0 \<and> \<not> db_fault_at example_world 1
   \<and> find_index (\<lambda>s. hardwareId s = req_sensorId hot_reading) (sensors example_world) = Some 0
   \<and> find (\<lambda>u. user_id u = owner (sensors example_world ! 0)) (users example_world) = Some ana
   \<and> truthy (whatsapp ana)
   \<and> lastAlertSent (sensors example_world ! 0) = Some 0
   \<and> cooldownMs example_platform \<lparr>ALERT_COOLDOWN = None\<rparr> = Fin 1800000
   \<and> outbox (snd (post_api_data example_platform \<lparr>ALERT_COOLDOWN = None\<rparr> 1800001 hot_reading
                     example_world)) \<noteq> outbox example_world
   \<and> outbox (snd (post_api_data example_platform \<lparr>ALERT_COOLDOWN = None\<rparr> 1800000 hot_reading
                     example_world)) = outbox example_world
   \<and> outbox (snd (post_api_data example_platform \<lparr>ALERT_COOLDOWN = None\<rparr> 1800001
                     (hot_reading\<lparr>req_tempC := 8\<rparr>) example_world)) = outbox example_world
   \<and> outbox (snd (post_api_data example_platform \<lparr>ALERT_COOLDOWN = Some ''4.1''\<rparr> 246000
                     hot_reading example_world)) \<noteq> outbox example_world"
proof -
  have t: "truthy (whatsapp ana)" by (simp add: truthy_def ana_def)
  have f8: "find_index (\<lambda>s. hardwareId s = req_sensorId (hot_reading\<lparr>req_tempC := 8\<rparr>))
              (sensors example_world) = Some 0"
    using ex_find_freezer by simp
  note a = alert_decision_iff [OF ex_no_faults ex_no_faults ex_find_freezer ex_find_ana t]
  have w: "js_gt (Fin 246000) (cooldownMs example_platform \<lparr>ALERT_COOLDOWN = Some ''4.1''\<rparr>)"
    by (simp only: cooldownMs_4_1 window_4_1(2))
  have c4: "outbox (snd (post_api_data example_platform \<lparr>ALERT_COOLDOWN = Some ''4.1''\<rparr> 246000
                     hot_reading example_world)) \<noteq> outbox example_world"
    using a [where lib = example_platform and ev = "\<lparr>ALERT_COOLDOWN = Some ''4.1''\<rparr>"
            and now = 246000, THEN conjunct1] w
    by (simp add: ex_freezer_fields ex_elapsed_246000)
  have c1: "outbox (snd (post_api_data example_platform \<lparr>ALERT_COOLDOWN = None\<rparr> 1800001 hot_reading
                     example_world)) \<noteq> outbox example_world"
    using a [where lib = example_platform and ev = "\<lparr>ALERT_COOLDOWN = None\<rparr>" and now = 1800001,
            THEN conjunct2, rule_format, of 0 1800000]
    by (simp add: ex_freezer_fields cooldownMs_default)
  have c2: "outbox (snd (post_api_data example_platform \<lparr>ALERT_COOLDOWN = None\<rparr> 1800000 hot_reading
                     example_world)) = outbox example_world"
    using a [where lib = example_platform and ev = "\<lparr>ALERT_COOLDOWN = None\<rparr>" and now = 1800000,
            THEN conjunct2, rule_format, of 0 1800000]
    by (simp add: ex_freezer_fields cooldownMs_default)
  have c3: "outbox (snd (post_api_data example_platform \<lparr>ALERT_COOLDOWN = None\<rparr> 1800001
                     (hot_reading\<lparr>req_tempC := 8\<rparr>) example_world)) = outbox example_world"
    using alert_decision_iff [OF ex_no_faults ex_no_faults f8 ex_find_ana t,
            where lib = example_platform and ev = "\<lparr>ALERT_COOLDOWN = None\<rparr>" and now = 1800001,
            THEN conjunct1]
    by (simp add: ex_freezer_fields)
  from ex_no_faults ex_find_freezer ex_find_ana t ex_freezer_fields(1) cooldownMs_default
    c1 c2 c3 c4 show ?thesis by blast
qed

text \<open>
  C3. When the sensor is found, the measurement is stored, the owner has a contact
  string, the temperature is above the threshold and the cooldown has expired (or
  lastAlertSent is null), the handler posts exactly one alert, whatever the chat API
  answers, and then saves the sensor with lastAlertSent set to the instant of the
  request: the sensor is stamped when that save is accepted, and left as it was, with
  status 500, when the save is rejected.
\<close>

theorem alert_dispatched_and_stamped:
  assumes "\<not> db_fault_at w 0" and "\<not> db_fault_at w 1"
    and "find_index (\<lambda>s. hardwareId s = req_sensorId req) (sensors w) = Some i"
    and "find (\<lambda>u. user_id u = owner (sensors w ! i)) (users w) = Some u"
    and "whatsapp u = Some number" and "number \<noteq> []"
    and "alertThreshold (sensors w ! i) < req_tempC req"
    and "case lastAlertSent (sensors w ! i) of
           None \<Rightarrow> True
         | Some l \<Rightarrow> js_gt (js_sub (date_value now) (date_value l)) (cooldownMs lib ev)"
  shows "outbox (snd (post_api_data lib ev now req w)) =
           outbox w @ [SendText number (alert_mensaje lib (friendlyName (sensors w ! i)) (req_tempC req))]
       \<and> (\<not> db_fault_at w 2 \<longrightarrow>
            sensors (snd (post_api_data lib ev now req w)) =
              (sensors w)[i := (sensors w ! i)\<lparr>lastAlertSent := Some now\<rparr>]
            \<and> fst (post_api_data lib ev now req w) = Response 200 (Text ''OK''))
       \<and> (db_fault_at w 2 \<longrightarrow>
            sensors (snd (post_api_data lib ev now req w)) = sensors w
            \<and> fst (post_api_data lib ev now req w) = Response 500 (Text ''Error''))"
  using assms
  by (simp add: post_api_data_def Sensor_findOne_populate_eq Measurement_save_eq
        Sensor_save_eq contact_of_def sendWhatsAppAlert_def numeral_2_eq_2)

text \<open>
  Two runs on the example store, one hour after the last alert. In the first the chat
  API rejects the post: the alert was posted once and the freezer is stamped. In the
  second the database rejects the save of the sensor: the alert was posted once and the
  freezer keeps its old stamp.
\<close>

theorem alert_dispatched_and_stamped_witness:
  "net_faults send_fails = [True]
   \<and> \<not> db_fault_at send_fails 0 \<and> \<not> db_fault_at send_fails 1 \<and> \<not> db_fault_at send_fails 2
   \<and> find_index (\<lambda>s. hardwareId s = req_sensorId hot_reading) (sensors send_fails) = Some 0
   \<and> find (\<lambda>u. user_id u = owner (sensors send_fails ! 0)) (users send_fails) = Some ana
   \<and> whatsapp ana = Some ''5491100000001''
   \<and> alertThreshold (sensors send_fails ! 0) < req_tempC hot_reading
   \<and> outbox (snd (post_api_data example_platform \<lparr>ALERT_COOLDOWN = None\<rparr> 3600000 hot_reading
                     send_fails)) =
       [SendText ''5491100000001'' (alert_mensaje example_platform ''Freezer Carnes'' 12)]
   \<and> sensors (snd (post_api_data example_platform \<lparr>ALERT_COOLDOWN = None\<rparr> 3600000 hot_reading
                      send_fails)) = [freezer\<lparr>lastAlertSent := Some 3600000\<rparr>]
   \<and> fst (post_api_data example_platform \<lparr>ALERT_COOLDOWN = None\<rparr> 3600000 hot_reading
             send_fails) = Response 200 (Text ''OK'')
   \<and> db_fault_at save_rejected 2
   \<and> outbox (snd (post_api_data example_platform \<lparr>ALERT_COOLDOWN = None\<rparr> 3600000 hot_reading
                     save_rejected)) =
       [SendText ''5491100000001'' (alert_mensaje example_platform ''Freezer Carnes'' 12)]
   \<and> sensors (snd (post_api_data example_platform \<lparr>ALERT_COOLDOWN = None\<rparr> 3600000 hot_reading
                      save_rejected)) = [freezer]
   \<and> fst (post_api_data example_platform \<lparr>ALERT_COOLDOWN = None\<rparr> 3600000 hot_reading
             save_rejected) = Response 500 (Text ''Error'')"
proof -
  have hot: "alertThreshold (sensors send_fails ! 0) < req_tempC hot_reading"
    by (simp add: send_fails_fields ex_freezer_fields)
  have old: "case lastAlertSent (sensors send_fails ! 0) of
               None \<Rightarrow> True
             | Some l \<Rightarrow> js_gt (js_sub (date_value 3600000) (date_value l)) (cooldownMs example_platform \<lparr>ALERT_COOLDOWN = None\<rparr>)"
    by (simp add: send_fails_fields ex_freezer_fields cooldownMs_default ex_elapsed)
  have f: "find_index (\<lambda>s. hardwareId s = req_sensorId hot_reading) (sensors send_fails) = Some 0"
    "find (\<lambda>u. user_id u = owner (sensors send_fails ! 0)) (users send_fails) = Some ana"
    by (simp_all add: send_fails_fields ex_find_freezer ex_find_ana)
  note c = alert_dispatched_and_stamped [OF send_fails_fields(4) send_fails_fields(4) f
              ex_ana_contact hot old]
  have c1: "outbox (snd (post_api_data example_platform \<lparr>ALERT_COOLDOWN = None\<rparr> 3600000
                     hot_reading send_fails)) =
       [SendText ''5491100000001'' (alert_mensaje example_platform ''Freezer Carnes'' 12)]"
    using c by (simp add: send_fails_fields ex_sensors ex_freezer_fields)
  have c2: "sensors (snd (post_api_data example_platform \<lparr>ALERT_COOLDOWN = None\<rparr> 3600000
                      hot_reading send_fails)) = [freezer\<lparr>lastAlertSent := Some 3600000\<rparr>]
     \<and> fst (post_api_data example_platform \<lparr>ALERT_COOLDOWN = None\<rparr> 3600000 hot_reading
             send_fails) = Response 200 (Text ''OK'')"
    using c by (simp add: send_fails_fields ex_sensors)
  have nf: "net_faults send_fails = [True]" by (simp add: send_fails_def)
  have hot': "alertThreshold (sensors save_rejected ! 0) < req_tempC hot_reading"
    by (simp add: save_rejected_fields ex_freezer_fields)
  have old': "case lastAlertSent (sensors save_rejected ! 0) of
               None \<Rightarrow> True
             | Some l \<Rightarrow> js_gt (js_sub (date_value 3600000) (date_value l)) (cooldownMs example_platform \<lparr>ALERT_COOLDOWN = None\<rparr>)"
    by (simp add: save_rejected_fields ex_freezer_fields cooldownMs_default ex_elapsed)
  have f': "find_index (\<lambda>s. hardwareId s = req_sensorId hot_reading) (sensors save_rejected) = Some 0"
    "find (\<lambda>u. user_id u = owner (sensors save_rejected ! 0)) (users save_rejected) = Some ana"
    by (simp_all add: save_rejected_fields ex_find_freezer ex_find_ana)
  note c' = alert_dispatched_and_stamped [OF save_rejected_fields(4,5) f' ex_ana_contact hot' old']
  have c3: "outbox (snd (post_api_data example_platform \<lparr>ALERT_COOLDOWN = None\<rparr> 3600000 hot_reading
                     save_rejected)) =
       [SendText ''5491100000001'' (alert_mensaje example_platform ''Freezer Carnes'' 12)]
   \<and> sensors (snd (post_api_data example_platform \<lparr>ALERT_COOLDOWN = None\<rparr> 3600000 hot_reading
                      save_rejected)) = [freezer]
   \<and> fst (post_api_data example_platform \<lparr>ALERT_COOLDOWN = None\<rparr> 3600000 hot_reading
             save_rejected) = Response 500 (Text ''Error'')"
    using c' by (simp add: save_rejected_fields ex_sensors ex_freezer_fields)
  from f ex_ana_contact(1) hot c1 c2 c3 nf send_fails_fields(4) save_rejected_fields(6)
  show ?thesis by blast
qed

text \<open>
  What a NaN window does: a sensor that has been alerted before never alerts again.
\<close>

lemma post_api_data_responds: "\<exists>st b. fst (post_api_data lib ev now req w) = Response st b"
  by (simp add: post_api_data_def Sensor_findOne_populate_eq Measurement_save_eq Sensor_save_eq
        split: option.splits prod.splits sum.splits)

lemma post_api_data_cooldown_nan:
  assumes "cooldownMs lib ev = NaN"
    and "find_index (\<lambda>s. hardwareId s = req_sensorId req) (sensors w) = Some i"
    and "lastAlertSent (sensors w ! i) = Some l"
  shows "outbox (snd (post_api_data lib ev now req w)) = outbox w
       \<and> sensors (snd (post_api_data lib ev now req w)) = sensors w"
  using assms
  by (simp add: post_api_data_def Sensor_findOne_populate_eq Measurement_save_eq Sensor_save_eq
        split: option.splits)

text \<open>
  C2, as the claim states it, fails. With \<open>ALERT_COOLDOWN=abc\<close> the freezer, last
  alerted one hour ago, gets no alert for a reading of 12 against a threshold of 8;
  with the variable unset, the same request on the same store posts the alert.
\<close>

theorem nonnumeric_cooldown_counterexample:
  "outbox (snd (post_api_data example_platform \<lparr>ALERT_COOLDOWN = Some ''abc''\<rparr> 3600000
                  hot_reading example_world)) = []
   \<and> outbox (snd (post_api_data example_platform \<lparr>ALERT_COOLDOWN = None\<rparr> 3600000
                  hot_reading example_world)) =
       [SendText ''5491100000001'' (alert_mensaje example_platform ''Freezer Carnes'' 12)]"
proof -
  have s: "outbox example_world = []" "friendlyName (sensors example_world ! 0) = ''Freezer Carnes''"
    by (simp_all add: example_world_def freezer_def)
  show ?thesis
    by (simp add: post_api_data_found [OF ex_no_faults ex_no_faults ex_find_freezer ex_find_ana
                    ex_ana_contact]
          ex_freezer_fields cooldownMs_abc cooldownMs_default ex_elapsed s)
qed

text \<open>
  C2, amended. The handler answers every request, whatever the configuration. The
  window is the default of 30 minutes when the variable is unset or empty. When it is
  set to a string that is not a number, the window is NaN, nothing is later than it,
  and a sensor whose lastAlertSent is set gets no alert and keeps its stamp, however
  old the stamp is.
\<close>

theorem nonnumeric_cooldown_blocks_alerts:
  "(\<exists>st b. fst (post_api_data lib ev now req w) = Response st b)
   \<and> (ALERT_COOLDOWN ev = None \<or> ALERT_COOLDOWN ev = Some [] \<longrightarrow> cooldownMs lib ev = Fin 1800000)
   \<and> (\<forall>v i l. ALERT_COOLDOWN ev = Some v \<and> v \<noteq> [] \<and> to_number lib v = NaN
        \<and> find_index (\<lambda>s. hardwareId s = req_sensorId req) (sensors w) = Some i
        \<and> lastAlertSent (sensors w ! i) = Some l
        \<longrightarrow> cooldownMs lib ev = NaN
          \<and> outbox (snd (post_api_data lib ev now req w)) = outbox w
          \<and> sensors (snd (post_api_data lib ev now req w)) = sensors w)"
proof (intro conjI allI impI)
  show "\<exists>st b. fst (post_api_data lib ev now req w) = Response st b"
    by (rule post_api_data_responds)
next
  assume "ALERT_COOLDOWN ev = None \<or> ALERT_COOLDOWN ev = Some []"
  then show "cooldownMs lib ev = Fin 1800000"
    by (rule cooldownMs_unset)
next
  fix v i l
  assume a: "ALERT_COOLDOWN ev = Some v \<and> v \<noteq> [] \<and> to_number lib v = NaN
        \<and> find_index (\<lambda>s. hardwareId s = req_sensorId req) (sensors w) = Some i
        \<and> lastAlertSent (sensors w ! i) = Some l"
  then show nan: "cooldownMs lib ev = NaN"
    by (simp add: cooldownMs_def)
  from a nan show "outbox (snd (post_api_data lib ev now req w)) = outbox w"
    by (simp add: post_api_data_cooldown_nan)
  from a nan show "sensors (snd (post_api_data lib ev now req w)) = sensors w"
    by (simp add: post_api_data_cooldown_nan)
qed

theorem nonnumeric_cooldown_blocks_alerts_witness:
  "ALERT_COOLDOWN \<lparr>ALERT_COOLDOWN = Some ''abc''\<rparr> = Some ''abc'' \<and> ''abc'' \<noteq> []
   \<and> to_number example_platform ''abc'' = NaN
   \<and> find_index (\<lambda>s. hardwareId s = req_sensorId hot_reading) (sensors example_world) = Some 0
   \<and> lastAlertSent (sensors example_world ! 0) = Some 0
   \<and> fst (post_api_data example_platform \<lparr>ALERT_COOLDOWN = Some ''abc''\<rparr> 3600000 hot_reading
            example_world) = Response 200 (Text ''OK'')
   \<and> outbox (snd (post_api_data example_platform \<lparr>ALERT_COOLDOWN = Some ''abc''\<rparr> 3600000
                  hot_reading example_world)) = outbox example_world
   \<and> sensors (snd (post_api_data example_platform \<lparr>ALERT_COOLDOWN = Some ''abc''\<rparr> 3600000
                  hot_reading example_world)) = sensors example_world
   \<and> cooldownMs example_platform \<lparr>ALERT_COOLDOWN = Some []\<rparr> = Fin 1800000"
proof -
  have nan: "to_number example_platform ''abc'' = NaN" by (rule ex_abc)
  have r: "fst (post_api_data example_platform \<lparr>ALERT_COOLDOWN = Some ''abc''\<rparr> 3600000 hot_reading
            example_world) = Response 200 (Text ''OK'')"
    using ex_find_freezer ex_find_ana
    by (simp add: post_api_data_def Sensor_findOne_populate_eq Measurement_save_eq Sensor_save_eq
          ex_no_faults ex_freezer_fields cooldownMs_abc contact_of_def ana_def)
  show ?thesis
    using nonnumeric_cooldown_blocks_alerts [of example_platform "\<lparr>ALERT_COOLDOWN = Some ''abc''\<rparr>"
            3600000 hot_reading example_world]
          nonnumeric_cooldown_blocks_alerts [of example_platform "\<lparr>ALERT_COOLDOWN = Some []\<rparr>"
            3600000 hot_reading example_world]
          nan r ex_find_freezer ex_freezer_fields(1)
    by simp
qed





text \<open>
  C8. A request whose sensorId is the hardwareId of no sensor (strings are compared as
  they are, case included) stores no measurement, posts nothing and changes no sensor:
  all that happened is the lookup. When the lookup is answered, the request is
  rejected with status 404 and the text \<open>Sensor no configurado\<close>.
\<close>

theorem unknown_sensor_rejected:
  assumes "req_sensorId req \<notin> set (map hardwareId (sensors w))"
  shows "snd (post_api_data lib ev now req w) = db_step w
       \<and> measurements (snd (post_api_data lib ev now req w)) = measurements w
       \<and> outbox (snd (post_api_data lib ev now req w)) = outbox w
       \<and> sensors (snd (post_api_data lib ev now req w)) = sensors w
       \<and> (\<not> db_fault_at w 0 \<longrightarrow>
            fst (post_api_data lib ev now req w) = Response 404 (Text ''Sensor no configurado''))"
proof -
  from assms have "find_index (\<lambda>s. hardwareId s = req_sensorId req) (sensors w) = None"
    by (force simp: find_index_None)
  then show ?thesis
    by (simp add: post_api_data_def Sensor_findOne_populate_eq)
qed

text \<open>The example store knows \<open>HELADERA-01\<close>; a reading for \<open>heladera-01\<close> is rejected.\<close>

theorem unknown_sensor_rejected_witness:
  "''heladera-01'' \<notin> set (map hardwareId (sensors example_world))
   \<and> \<not> db_fault_at example_world 0
   \<and> measurements (snd (post_api_data example_platform \<lparr>ALERT_COOLDOWN = None\<rparr> 3600000
        (hot_reading\<lparr>req_sensorId := ''heladera-01''\<rparr>) example_world)) = measurements example_world
   \<and> fst (post_api_data example_platform \<lparr>ALERT_COOLDOWN = None\<rparr> 3600000
        (hot_reading\<lparr>req_sensorId := ''heladera-01''\<rparr>) example_world)
       = Response 404 (Text ''Sensor no configurado'')"
proof -
  have h: "req_sensorId (hot_reading\<lparr>req_sensorId := ''heladera-01''\<rparr>)
             \<notin> set (map hardwareId (sensors example_world))"
    by (simp add: example_world_def freezer_def)
  show ?thesis
    using unknown_sensor_rejected [OF h, of example_platform "\<lparr>ALERT_COOLDOWN = None\<rparr>" 3600000]
          h ex_no_faults [of 0]
    by simp
qed

section \<open>The webhook handler\<close>

lemma User_findOne_whatsapp_eq:
  "User_findOne_whatsapp number w =
     (if db_fault_at w 0 then (Inl StorageError, db_step w)
      else (Inr (find (\<lambda>u. whatsapp u = Some number) (users w)), db_step w))"
  by (simp add: User_findOne_whatsapp_def db_call_eq)

lemma Sensor_find_enabled_eq:
  "Sensor_find_enabled uid w =
     (if db_fault_at w 0 then (Inl StorageError, db_step w)
      else (Inr (filter (\<lambda>s. owner s = uid \<and> enabled s) (sensors w)), db_step w))"
  by (simp add: Sensor_find_enabled_def db_call_eq)

lemma Measurement_findOne_latest_eq:
  "Measurement_findOne_latest hid w =
     (if db_fault_at w 0 then (Inl StorageError, db_step w)
      else (Inr (case sort_newest_first (filter (\<lambda>m. sensorId m = hid) (measurements w)) of
                   [] \<Rightarrow> None
                 | m # ms \<Rightarrow> Some m),
            db_step w))"
  by (simp add: Measurement_findOne_latest_def db_call_eq)

lemma Measurement_find_eq:
  "Measurement_find hid n w =
     (if db_fault_at w 0 then (Inl StorageError, db_step w)
      else (Inr (limit_docs n (sort_newest_first (filter (\<lambda>m. sensorId m = hid) (measurements w)))),
            db_step w))"
  by (simp add: Measurement_find_def db_call_eq)

lemma Sensor_findOne_matching_eq:
  "Sensor_findOne_matching uid re w =
     (if db_fault_at w 0 then (Inl StorageError, db_step w)
      else (Inr (find (\<lambda>s. owner s = uid \<and> re (friendlyName s)) (sensors w)), db_step w))"
  by (simp add: Sensor_findOne_matching_def db_call_eq)

lemma responderWhatsAppConImagen_fields [simp]:
  "users (responderWhatsAppConImagen n c t w) = users w"
  "sensors (responderWhatsAppConImagen n c t w) = sensors w"
  "measurements (responderWhatsAppConImagen n c t w) = measurements w"
  "outbox (responderWhatsAppConImagen n c t w) = outbox w @ [SendImage n c t]"
  "db_faults (responderWhatsAppConImagen n c t w) = db_faults w"
  by (simp_all add: responderWhatsAppConImagen_def net_call_eq net_step_def Let_def)

lemma db_step_nofault: "db_faults w = [] \<Longrightarrow> db_step w = w"
  by (simp add: db_step_def)

lemma nofault_at: "db_faults w = [] \<Longrightarrow> \<not> db_fault_at w k"
  by (simp add: db_fault_at_def)

lemma estado_loop_nofault:
  "db_faults w = [] \<Longrightarrow> \<exists>r. estado_loop lib ss rep w = (Inr r, w)"
  by (induction ss arbitrary: rep) (simp_all add: Measurement_findOne_latest_eq nofault_at db_step_nofault Let_def)

lemma startsWith_historial_not_estado: "startsWith txt ''historial'' \<Longrightarrow> txt \<noteq> ''estado''"
  by (auto simp: startsWith_def)

lemma estado_not_historial: "\<not> startsWith ''estado'' ''historial''"
  by (simp add: startsWith_def)

text \<open>The handler on a message with key and remoteJid from a known user.\<close>

lemma webhook_try_known_user:
  assumes "body_data rb = Some d" "data_message d = Some m"
    and "data_key d = Some k" "remoteJid k = Some jid"
    and "\<not> db_fault_at w 0"
    and "find (\<lambda>u. whatsapp u = Some (sender_of jid)) (users w) = Some usr"
  shows "webhook_try lib rb w =
     (case (if command_text lib m = ''estado''
            then comando_estado lib usr (sender_of jid)
                   ((db_step w)\<lparr>console := console w @ [LogCommand (command_text lib m)]\<rparr>)
            else (Inr (), (db_step w)\<lparr>console := console w @ [LogCommand (command_text lib m)]\<rparr>)) of
        (Inl e, w2) \<Rightarrow> (Inl e, w2)
      | (Inr u, w2) \<Rightarrow>
          (case (if startsWith (command_text lib m) ''historial''
                 then comando_historial lib usr (sender_of jid)
                        (command_text lib m) w2
                 else (Inr (), w2)) of
             (Inl e, w3) \<Rightarrow> (Inl e, w3)
           | (Inr u, w3) \<Rightarrow> (Inr 200, w3)))"
  using assms by (simp add: webhook_try_def User_findOne_whatsapp_eq Let_def)

lemma webhook_try_status: "webhook_try lib rb w = (Inr st, w') \<Longrightarrow> st = 200"
  by (auto simp: webhook_try_def Let_def split: option.splits prod.splits sum.splits if_splits)

lemma webhook_200_or_500:
  "fst (post_webhook_whatsapp lib rb w) = Response 200 StatusText
   \<or> fst (post_webhook_whatsapp lib rb w) = Response 500 StatusText"
  by (auto simp: post_webhook_whatsapp_def split: prod.splits sum.splits dest: webhook_try_status)

lemma comando_estado_nofault:
  assumes "db_faults w = []"
  shows "\<exists>w'. comando_estado lib usr number w = (Inr (), w') \<and> db_faults w' = []"
proof -
  from estado_loop_nofault [OF assms]
  obtain r where "estado_loop lib (filter (\<lambda>s. owner s = user_id usr \<and> enabled s) (sensors w))
                    reporte_header w = (Inr r, w)"
    by blast
  with assms show ?thesis
    by (simp add: comando_estado_def Sensor_find_enabled_eq nofault_at db_step_nofault)
qed

lemma comando_historial_nofault:
  assumes "db_faults w = []" and "regexp_i lib (busqueda_of lib txt) \<noteq> None"
  shows "\<exists>w'. comando_historial lib usr number txt w = (Inr (), w')"
  using assms
  by (auto simp: comando_historial_def Sensor_findOne_matching_eq Measurement_find_eq nofault_at
        db_step_nofault Let_def split: option.splits)

lemma comando_historial_bad_pattern:
  "regexp_i lib (busqueda_of lib txt) = None \<Longrightarrow>
   comando_historial lib usr number txt w = (Inl SyntaxError, w)"
  by (simp add: comando_historial_def)

lemma webhook_nofault_200:
  assumes "body_data rb = Some d" and "db_faults w = []"
    and "data_message d = None \<or>
         (\<exists>m k jid. data_message d = Some m \<and> data_key d = Some k \<and> remoteJid k = Some jid
            \<and> (regexp_i lib (busqueda_of lib (command_text lib m)) = None \<longrightarrow>
                 \<not> startsWith (command_text lib m) ''historial''))"
  shows "fst (post_webhook_whatsapp lib rb w) = Response 200 StatusText"
proof (cases "data_message d")
  case None
  with assms(1) show ?thesis
    by (simp add: post_webhook_whatsapp_def webhook_try_def)
next
  case (Some m)
  with assms(3) obtain k jid where kj: "data_key d = Some k" "remoteJid k = Some jid"
    and re: "regexp_i lib (busqueda_of lib (command_text lib m)) = None \<longrightarrow>
             \<not> startsWith (command_text lib m) ''historial''"
    by auto
  show ?thesis
  proof (cases "find (\<lambda>u. whatsapp u = Some (sender_of jid)) (users w)")
    case None
    with assms(1,2) Some kj show ?thesis
      by (simp add: post_webhook_whatsapp_def webhook_try_def User_findOne_whatsapp_eq nofault_at
            Let_def)
  next
    case (Some usr)
    let ?w1 = "(db_step w)\<lparr>console := console w @ [LogCommand (command_text lib m)]\<rparr>"
    have w1: "db_faults ?w1 = []"
      using assms(2) by (simp add: db_step_def)
    note t = webhook_try_known_user [OF assms(1) \<open>data_message d = Some m\<close> kj
               nofault_at [OF assms(2)] Some, of lib]
    show ?thesis
    proof (cases "command_text lib m = ''estado''")
      case True
      from comando_estado_nofault [OF w1, of lib usr "sender_of jid"]
      obtain w2 where "comando_estado lib usr (sender_of jid) ?w1 = (Inr (), w2)" by blast
      with True show ?thesis
        by (simp add: post_webhook_whatsapp_def t estado_not_historial)
    next
      case False
      show ?thesis
      proof (cases "startsWith (command_text lib m) ''historial''")
        case True
        with re have "regexp_i lib (busqueda_of lib (command_text lib m)) \<noteq> None" by blast
        from comando_historial_nofault [OF w1 this, of usr "sender_of jid"]
        obtain w3 where "comando_historial lib usr (sender_of jid) (command_text lib m) ?w1 = (Inr (), w3)"
          by blast
        with True False show ?thesis
          by (simp add: post_webhook_whatsapp_def t)
      next
        case nh: False
        with False show ?thesis
          by (simp add: post_webhook_whatsapp_def t)
      qed
    qed
  qed
qed

lemma webhook_no_data_500:
  "body_data rb = None \<Longrightarrow> fst (post_webhook_whatsapp lib rb w) = Response 500 StatusText"
  by (simp add: post_webhook_whatsapp_def webhook_try_def)

lemma webhook_lookup_rejected_500:
  assumes "body_data rb = Some d" and "data_message d = Some m"
    and "data_key d = Some k" and "remoteJid k = Some jid" and "db_fault_at w 0"
  shows "fst (post_webhook_whatsapp lib rb w) = Response 500 StatusText"
  using assms
  by (simp add: post_webhook_whatsapp_def webhook_try_def User_findOne_whatsapp_eq Let_def)

lemma webhook_bad_pattern_500:
  assumes "body_data rb = Some d" and "data_message d = Some m"
    and "data_key d = Some k" and "remoteJid k = Some jid" and "\<not> db_fault_at w 0"
    and "find (\<lambda>u. whatsapp u = Some (sender_of jid)) (users w) = Some usr"
    and "startsWith (command_text lib m) ''historial''"
    and "regexp_i lib (busqueda_of lib (command_text lib m)) = None"
  shows "fst (post_webhook_whatsapp lib rb w) = Response 500 StatusText"
  using assms(7,8) startsWith_historial_not_estado [OF assms(7)]
  by (simp add: post_webhook_whatsapp_def webhook_try_known_user [OF assms(1-6)]
        comando_historial_bad_pattern)

subsection \<open>Messages to the example store\<close>

lemma chat_message_fields:
  "body_data (chat_message jid txt) =
     Some \<lparr>data_message = Some \<lparr>conversation = Some txt, extendedTextMessage = None\<rparr>,
           data_key = Some \<lparr>remoteJid = Some jid\<rparr>\<rparr>"
  by (simp add: chat_message_def)

lemma ex_beto:
  "find (\<lambda>u. whatsapp u = Some ''5491100000002'') (users example_world) = Some beto"
  "user_id beto = 2"
  "filter (\<lambda>s. owner s = 2 \<and> enabled s) (sensors example_world) = []"
  by (simp_all add: example_world_def ana_def beto_def freezer_def)

lemma ex_sender: "sender_of ''5491100000002@s.whatsapp.net'' = ''5491100000002''"
  by (simp add: sender_of_def split_head_def)

lemma ex_estado:
  "command_text example_platform \<lparr>conversation = Some '' Estado'', extendedTextMessage = None\<rparr> = ''estado''"
  unfolding command_text_def ex_platform_fields by code_simp+

lemma ex_command_texts:
  "command_text example_platform \<lparr>conversation = Some ''estado'', extendedTextMessage = None\<rparr> = ''estado''"
  "command_text example_platform \<lparr>conversation = Some ''hola'', extendedTextMessage = None\<rparr> = ''hola''"
  "command_text example_platform \<lparr>conversation = Some ''historial ('', extendedTextMessage = None\<rparr> = ''historial (''"
  "command_text example_platform \<lparr>conversation = Some ''Historial FREEZER'', extendedTextMessage = None\<rparr>
     = ''historial freezer''"
  "command_text example_platform \<lparr>conversation = Some ''historial horno'', extendedTextMessage = None\<rparr>
     = ''historial horno''"
  unfolding command_text_def ex_platform_fields by code_simp+

lemma ex_busquedas:
  "busqueda_of example_platform ''historial ('' = ''(''"
  "busqueda_of example_platform ''historial freezer'' = ''freezer''"
  "busqueda_of example_platform ''historial horno'' = ''horno''"
  unfolding busqueda_of_def ex_platform_fields by code_simp+

lemma ex_starts:
  "startsWith ''historial ('' ''historial''"
  "startsWith ''historial freezer'' ''historial''"
  "startsWith ''historial horno'' ''historial''"
  "\<not> startsWith ''hola'' ''historial''"
  by (simp_all add: startsWith_def)

lemma ex_bad_pattern: "regexp_i example_platform ''('' = None"
  by (simp add: example_platform_def literal_regexp_def literal_char_def)

lemma ex_ana_sender:
  "sender_of ''5491100000001@s.whatsapp.net'' = ''5491100000001''"
  "sender_of ''5490000000000@s.whatsapp.net'' = ''5490000000000''"
  by (simp_all add: sender_of_def split_head_def)

lemma ex_find_ana_by_number:
  "find (\<lambda>u. whatsapp u = Some ''5491100000001'') (users example_world) = Some ana"
  "find (\<lambda>u. whatsapp u = Some ''5490000000000'') (users example_world) = None"
  by (simp_all add: example_world_def ana_def beto_def)

lemma db_down_fields:
  "db_fault_at db_down 0" "users db_down = users example_world"
  by (simp_all add: db_down_def db_fault_at_def)

lemma ex_patterns:
  "regexp_i example_platform ''freezer'' = Some (\<lambda>s. contains (ascii_toLowerCase s) (ascii_toLowerCase ''freezer''))"
  "regexp_i example_platform ''horno'' = Some (\<lambda>s. contains (ascii_toLowerCase s) (ascii_toLowerCase ''horno''))"
  by (simp_all add: example_platform_def literal_regexp_def literal_char_def)

lemma ex_matches:
  "contains (ascii_toLowerCase ''Freezer Carnes'') (ascii_toLowerCase ''freezer'')"
  "\<not> contains (ascii_toLowerCase ''Freezer Carnes'') (ascii_toLowerCase ''horno'')"
  by code_simp+

lemma ex_match_freezer:
  "find (\<lambda>s. owner s = user_id ana \<and> contains (ascii_toLowerCase (friendlyName s)) (ascii_toLowerCase ''freezer''))
     (sensors example_world) = Some freezer"
  "find (\<lambda>s. owner s = user_id ana \<and> contains (ascii_toLowerCase (friendlyName s)) (ascii_toLowerCase ''horno''))
     (sensors example_world) = None"
  using ex_matches by (simp_all add: ex_sensors ana_def freezer_def)

lemma ex_docs:
  "filter (\<lambda>x. sensorId x = hardwareId freezer) (measurements example_world)
     = [reading 1000 4, reading 3000 6, reading 2000 5]"
  by (simp add: example_world_def freezer_def reading_def)

lemma ex_shown:
  "rev (take 10 (sort_newest_first [reading 1000 4, reading 3000 6, reading 2000 5]))
     = [reading 1000 4, reading 2000 5, reading 3000 6]"
  by (simp add: sort_newest_first_def reading_def)

lemma no_readings_fields:
  "users no_readings = users example_world" "sensors no_readings = sensors example_world"
  "measurements no_readings = []" "outbox no_readings = []" "\<not> db_fault_at no_readings k"
  by (simp_all add: no_readings_def example_world_def db_fault_at_def)

subsection \<open>The estado command\<close>

text \<open>
  C10. An \<open>estado\<close> command from a known user who owns no enabled sensor is answered
  with exactly one text message, the header of the report alone, and status 200 (the
  lookup of the user and the query for the sensors being answered).
\<close>

theorem estado_without_sensors:
  assumes "body_data rb = Some d" and "data_message d = Some m"
    and "data_key d = Some k" and "remoteJid k = Some jid"
    and "command_text lib m = ''estado''"
    and "find (\<lambda>u. whatsapp u = Some (sender_of jid)) (users w) = Some usr"
    and "\<not> db_fault_at w 0" and "\<not> db_fault_at w 1"
    and "filter (\<lambda>s. owner s = user_id usr \<and> enabled s) (sensors w) = []"
  shows "outbox (snd (post_webhook_whatsapp lib rb w)) =
           outbox w @ [SendText (sender_of jid) reporte_header]
       \<and> fst (post_webhook_whatsapp lib rb w) = Response 200 StatusText"
  using assms(5,7-9)
  by (simp add: post_webhook_whatsapp_def webhook_try_known_user [OF assms(1-4) assms(7) assms(6)]
        comando_estado_def Sensor_find_enabled_eq estado_not_historial)

text \<open>Beto owns no sensor in the example store.\<close>

theorem estado_without_sensors_witness:
  "command_text example_platform \<lparr>conversation = Some '' Estado'', extendedTextMessage = None\<rparr> = ''estado''
   \<and> find (\<lambda>u. whatsapp u = Some (sender_of ''5491100000002@s.whatsapp.net'')) (users example_world)
       = Some beto
   \<and> \<not> db_fault_at example_world 0 \<and> \<not> db_fault_at example_world 1
   \<and> filter (\<lambda>s. owner s = user_id beto \<and> enabled s) (sensors example_world) = []
   \<and> outbox (snd (post_webhook_whatsapp example_platform
                     (chat_message ''5491100000002@s.whatsapp.net'' '' Estado'') example_world))
       = [SendText ''5491100000002'' reporte_header]
   \<and> fst (post_webhook_whatsapp example_platform
             (chat_message ''5491100000002@s.whatsapp.net'' '' Estado'') example_world)
       = Response 200 StatusText"
proof -
  have u: "find (\<lambda>u. whatsapp u = Some (sender_of ''5491100000002@s.whatsapp.net''))
             (users example_world) = Some beto"
    by (simp add: ex_sender ex_beto)
  have n: "filter (\<lambda>s. owner s = user_id beto \<and> enabled s) (sensors example_world) = []"
    by (simp add: ex_beto)
  have o: "outbox example_world = []" by (simp add: example_world_def)
  show ?thesis
    using estado_without_sensors [where lib = example_platform and w = example_world
            and rb = "chat_message ''5491100000002@s.whatsapp.net'' '' Estado''"
            and d = "\<lparr>data_message = Some \<lparr>conversation = Some '' Estado'', extendedTextMessage = None\<rparr>,
                     data_key = Some \<lparr>remoteJid = Some ''5491100000002@s.whatsapp.net''\<rparr>\<rparr>"
            and m = "\<lparr>conversation = Some '' Estado'', extendedTextMessage = None\<rparr>"
            and k = "\<lparr>remoteJid = Some ''5491100000002@s.whatsapp.net''\<rparr>"
            and jid = "''5491100000002@s.whatsapp.net''" and usr = beto]
          ex_estado u n ex_no_faults
    by (simp add: ex_sender o chat_message_fields)
qed

subsection \<open>The status sent to the chat platform\<close>

text \<open>
  C5, as the claim states it, fails: the \<open>catch\<close> of the handler sends status 500.
  A rejected lookup of the sender, a \<open>historial\<close> query that is no regular
  expression, and a body without \<open>data\<close> each end there.
\<close>

theorem webhook_failure_counterexample:
  "fst (post_webhook_whatsapp example_platform
          (chat_message ''5491100000001@s.whatsapp.net'' ''estado'') db_down)
     = Response 500 StatusText
   \<and> fst (post_webhook_whatsapp example_platform
            (chat_message ''5491100000001@s.whatsapp.net'' ''historial ('') example_world)
     = Response 500 StatusText
   \<and> fst (post_webhook_whatsapp example_platform \<lparr>body_data = None\<rparr> example_world)
     = Response 500 StatusText"
proof (intro conjI)
  show "fst (post_webhook_whatsapp example_platform
          (chat_message ''5491100000001@s.whatsapp.net'' ''estado'') db_down)
     = Response 500 StatusText"
    using webhook_lookup_rejected_500 [where lib = example_platform and w = db_down
            and rb = "chat_message ''5491100000001@s.whatsapp.net'' ''estado''"
            and jid = "''5491100000001@s.whatsapp.net''"]
    by (simp add: chat_message_fields db_down_fields)
next
  have u: "find (\<lambda>u. whatsapp u = Some (sender_of ''5491100000001@s.whatsapp.net''))
             (users example_world) = Some ana"
    by (simp add: ex_ana_sender ex_find_ana_by_number)
  show "fst (post_webhook_whatsapp example_platform
            (chat_message ''5491100000001@s.whatsapp.net'' ''historial ('') example_world)
     = Response 500 StatusText"
    using webhook_bad_pattern_500 [where lib = example_platform and w = example_world
            and rb = "chat_message ''5491100000001@s.whatsapp.net'' ''historial (''"
            and jid = "''5491100000001@s.whatsapp.net''" and usr = ana] u
    by (simp add: chat_message_fields ex_no_faults ex_command_texts ex_busquedas ex_starts
          ex_bad_pattern)
next
  show "fst (post_webhook_whatsapp example_platform \<lparr>body_data = None\<rparr> example_world)
     = Response 500 StatusText"
    by (rule webhook_no_data_500) simp
qed

text \<open>
  C5, amended. The handler answers 200 or 500 and nothing else. It answers 200 when
  no database operation is rejected and the envelope either has no message or has a
  key with a remoteJid, and the query of a \<open>historial\<close> command compiles: this covers
  the unknown sender, the unrecognized command and every answer of the chat API, whose
  failures are swallowed. It answers 500 when the body has no \<open>data\<close>, when the
  lookup of the sender is rejected, and when the query of a \<open>historial\<close> command from
  a known user does not compile.
\<close>

theorem webhook_status_200_or_500:
  "(fst (post_webhook_whatsapp lib rb w) = Response 200 StatusText
      \<or> fst (post_webhook_whatsapp lib rb w) = Response 500 StatusText)
   \<and> (\<forall>d. body_data rb = Some d \<and> db_faults w = []
         \<and> (data_message d = None \<or>
            (\<exists>m k jid. data_message d = Some m \<and> data_key d = Some k \<and> remoteJid k = Some jid
               \<and> (regexp_i lib (busqueda_of lib (command_text lib m)) = None \<longrightarrow>
                    \<not> startsWith (command_text lib m) ''historial'')))
         \<longrightarrow> fst (post_webhook_whatsapp lib rb w) = Response 200 StatusText)
   \<and> (body_data rb = None \<longrightarrow> fst (post_webhook_whatsapp lib rb w) = Response 500 StatusText)
   \<and> (\<forall>d m k jid. body_data rb = Some d \<and> data_message d = Some m \<and> data_key d = Some k
         \<and> remoteJid k = Some jid \<and> db_fault_at w 0
         \<longrightarrow> fst (post_webhook_whatsapp lib rb w) = Response 500 StatusText)
   \<and> (\<forall>d m k jid usr. body_data rb = Some d \<and> data_message d = Some m \<and> data_key d = Some k
         \<and> remoteJid k = Some jid \<and> \<not> db_fault_at w 0
         \<and> find (\<lambda>u. whatsapp u = Some (sender_of jid)) (users w) = Some usr
         \<and> startsWith (command_text lib m) ''historial''
         \<and> regexp_i lib (busqueda_of lib (command_text lib m)) = None
         \<longrightarrow> fst (post_webhook_whatsapp lib rb w) = Response 500 StatusText)"
proof (intro conjI allI impI)
  show "fst (post_webhook_whatsapp lib rb w) = Response 200 StatusText
      \<or> fst (post_webhook_whatsapp lib rb w) = Response 500 StatusText"
    by (rule webhook_200_or_500)
next
  fix d
  assume "body_data rb = Some d \<and> db_faults w = []
         \<and> (data_message d = None \<or>
            (\<exists>m k jid. data_message d = Some m \<and> data_key d = Some k \<and> remoteJid k = Some jid
               \<and> (regexp_i lib (busqueda_of lib (command_text lib m)) = None \<longrightarrow>
                    \<not> startsWith (command_text lib m) ''historial'')))"
  then have "body_data rb = Some d" and "db_faults w = []"
    and "data_message d = None \<or>
            (\<exists>m k jid. data_message d = Some m \<and> data_key d = Some k \<and> remoteJid k = Some jid
               \<and> (regexp_i lib (busqueda_of lib (command_text lib m)) = None \<longrightarrow>
                    \<not> startsWith (command_text lib m) ''historial''))"
    by simp_all
  then show "fst (post_webhook_whatsapp lib rb w) = Response 200 StatusText"
    by (rule webhook_nofault_200)
next
  assume "body_data rb = None"
  then show "fst (post_webhook_whatsapp lib rb w) = Response 500 StatusText"
    by (rule webhook_no_data_500)
next
  fix d m k jid
  assume "body_data rb = Some d \<and> data_message d = Some m \<and> data_key d = Some k
         \<and> remoteJid k = Some jid \<and> db_fault_at w 0"
  then show "fst (post_webhook_whatsapp lib rb w) = Response 500 StatusText"
    using webhook_lookup_rejected_500 [of rb d m k jid w lib] by blast
next
  fix d m k jid usr
  assume "body_data rb = Some d \<and> data_message d = Some m \<and> data_key d = Some k
         \<and> remoteJid k = Some jid \<and> \<not> db_fault_at w 0
         \<and> find (\<lambda>u. whatsapp u = Some (sender_of jid)) (users w) = Some usr
         \<and> startsWith (command_text lib m) ''historial''
         \<and> regexp_i lib (busqueda_of lib (command_text lib m)) = None"
  then show "fst (post_webhook_whatsapp lib rb w) = Response 500 StatusText"
    using webhook_bad_pattern_500 [of rb d m k jid w usr lib] by blast
qed

text \<open>
  An unknown sender, an unrecognized command and a reply that the chat API rejects are
  acknowledged with 200; a rejected lookup is not.
\<close>

theorem webhook_status_200_or_500_witness:
  "db_faults example_world = [] \<and> db_faults send_fails = [] \<and> net_faults send_fails = [True]
   \<and> db_fault_at db_down 0
   \<and> fst (post_webhook_whatsapp example_platform
            (chat_message ''5490000000000@s.whatsapp.net'' ''estado'') example_world)
       = Response 200 StatusText
   \<and> fst (post_webhook_whatsapp example_platform
            (chat_message ''5491100000001@s.whatsapp.net'' ''hola'') example_world)
       = Response 200 StatusText
   \<and> fst (post_webhook_whatsapp example_platform
            (chat_message ''5491100000001@s.whatsapp.net'' ''estado'') send_fails)
       = Response 200 StatusText
   \<and> fst (post_webhook_whatsapp example_platform
            (chat_message ''5491100000001@s.whatsapp.net'' ''estado'') db_down)
       = Response 500 StatusText"
proof -
  have nf: "db_faults example_world = []" "db_faults send_fails = []" "net_faults send_fails = [True]"
    by (simp_all add: example_world_def send_fails_def)
  have a: "fst (post_webhook_whatsapp example_platform
            (chat_message ''5490000000000@s.whatsapp.net'' ''estado'') example_world)
       = Response 200 StatusText"
    using webhook_status_200_or_500 [where lib = example_platform and w = example_world
            and rb = "chat_message ''5490000000000@s.whatsapp.net'' ''estado''"]
    by (simp add: chat_message_fields nf ex_command_texts estado_not_historial)
  have b: "fst (post_webhook_whatsapp example_platform
            (chat_message ''5491100000001@s.whatsapp.net'' ''hola'') example_world)
       = Response 200 StatusText"
    using webhook_status_200_or_500 [where lib = example_platform and w = example_world
            and rb = "chat_message ''5491100000001@s.whatsapp.net'' ''hola''"]
    by (simp add: chat_message_fields nf ex_command_texts ex_starts)
  have c: "fst (post_webhook_whatsapp example_platform
            (chat_message ''5491100000001@s.whatsapp.net'' ''estado'') send_fails)
       = Response 200 StatusText"
    using webhook_status_200_or_500 [where lib = example_platform and w = send_fails
            and rb = "chat_message ''5491100000001@s.whatsapp.net'' ''estado''"]
    by (simp add: chat_message_fields nf ex_command_texts estado_not_historial)
  have d: "fst (post_webhook_whatsapp example_platform
            (chat_message ''5491100000001@s.whatsapp.net'' ''estado'') db_down)
       = Response 500 StatusText"
    using webhook_status_200_or_500 [where lib = example_platform and w = db_down
            and rb = "chat_message ''5491100000001@s.whatsapp.net'' ''estado''"]
    by (simp add: chat_message_fields db_down_fields)
  from nf a b c d db_down_fields(1) show ?thesis by blast
qed

subsection \<open>The historial command\<close>

lemma sort_newest_first_Nil [simp]: "(sort_newest_first ms = []) = (ms = [])"
proof -
  have "length (sort_newest_first ms) = length ms"
    by (simp add: sort_newest_first_def)
  then show ?thesis by (metis length_0_conv)
qed

lemma sort_newest_first_descending:
  "sorted_wrt (\<lambda>a b. timestamp b \<le> timestamp a) (sort_newest_first ms)"
proof -
  have "sorted (map (\<lambda>m. - timestamp m) (sort_newest_first ms))"
    by (simp add: sort_newest_first_def)
  then show ?thesis
    by (simp add: sorted_map)
qed

lemma mset_sort_newest_first: "mset (sort_newest_first ms) = mset ms"
  by (simp add: sort_newest_first_def)

text \<open>The measurements charted: the first \<open>n\<close> of the newest-first order, reversed.\<close>

lemma charted_recent:
  fixes ms :: "measurement list" and n :: nat
  defines "shown \<equiv> rev (take n (sort_newest_first ms))"
    and "rest \<equiv> drop n (sort_newest_first ms)"
  shows "length shown = min n (length ms)"
    and "mset (shown @ rest) = mset ms"
    and "\<forall>a\<in>set shown. \<forall>b\<in>set rest. timestamp b \<le> timestamp a"
    and "sorted (map timestamp shown)"
    and "distinct (map timestamp ms) \<longrightarrow> sorted_wrt (<) (map timestamp shown)"
proof -
  let ?s = "sort_newest_first ms"
  have d: "sorted_wrt (\<lambda>a b. timestamp b \<le> timestamp a) ?s"
    by (rule sort_newest_first_descending)
  show "length shown = min n (length ms)"
    by (simp add: shown_def sort_newest_first_def min.commute)
  have "mset (take n ?s) + mset (drop n ?s) = mset ?s"
    by (metis append_take_drop_id mset_append)
  then show "mset (shown @ rest) = mset ms"
    by (simp add: shown_def rest_def mset_sort_newest_first)
  from d have "sorted_wrt (\<lambda>a b. timestamp b \<le> timestamp a) (take n ?s @ drop n ?s)"
    by simp
  then show "\<forall>a\<in>set shown. \<forall>b\<in>set rest. timestamp b \<le> timestamp a"
    unfolding sorted_wrt_append by (simp add: shown_def rest_def)
  from d have t: "sorted_wrt (\<lambda>a b. timestamp b \<le> timestamp a) (take n ?s)"
    by (rule sorted_wrt_take)
  then have "sorted_wrt (\<lambda>a b. timestamp a \<le> timestamp b) (rev (take n ?s))"
    by (simp add: sorted_wrt_rev)
  then show s: "sorted (map timestamp shown)"
    by (simp add: shown_def sorted_map)
  show "distinct (map timestamp ms) \<longrightarrow> sorted_wrt (<) (map timestamp shown)"
  proof
    assume "distinct (map timestamp ms)"
    moreover have e: "mset (map timestamp ?s) = mset (map timestamp ms)"
      by (simp add: mset_sort_newest_first)
    ultimately have "distinct (map timestamp ?s)"
      using mset_eq_imp_distinct_iff [OF e] by blast
    then have "distinct (map timestamp (take n ?s))"
      by (simp add: take_map [symmetric] distinct_take)
    then have "distinct (map timestamp shown)"
      by (simp add: shown_def rev_map [symmetric])
    with s show "sorted_wrt (<) (map timestamp shown)"
      by (simp add: strict_sorted_iff)
  qed
qed

lemma comando_historial_no_match:
  assumes "regexp_i lib (busqueda_of lib txt) = Some re" and "\<not> db_fault_at w 0"
    and "find (\<lambda>s. owner s = user_id usr \<and> re (friendlyName s)) (sensors w) = None"
  shows "comando_historial lib usr number txt w =
           (Inr (), responderWhatsApp number (not_found_reply (busqueda_of lib txt)) (db_step w))"
  using assms by (simp add: comando_historial_def Sensor_findOne_matching_eq)

lemma comando_historial_match:
  assumes "regexp_i lib (busqueda_of lib txt) = Some re"
    and "\<not> db_fault_at w 0" and "\<not> db_fault_at w 1"
    and "find (\<lambda>s. owner s = user_id usr \<and> re (friendlyName s)) (sensors w) = Some sensor"
  shows "comando_historial lib usr number txt w =
           (Inr (),
            if filter (\<lambda>x. sensorId x = hardwareId sensor) (measurements w) = []
            then db_step (db_step w)
            else responderWhatsAppConImagen number
                   (history_chart lib
                      (take 10 (sort_newest_first
                         (filter (\<lambda>x. sensorId x = hardwareId sensor) (measurements w)))))
                   (emoji_chart @ '' Historial: '' @ friendlyName sensor)
                   (db_step (db_step w)))"
  using assms
  by (simp add: comando_historial_def Sensor_findOne_matching_eq Measurement_find_eq limit_docs_def)

lemma history_chart_rev:
  "history_chart lib docs =
     \<lparr>chart_type = ''line'',
      chart_labels = map (\<lambda>x. time_label lib (timestamp x)) (rev docs),
      dataset_label = ''Temperatura '' @ degree_sign @ ''C'',
      dataset_data = map temperatureC (rev docs),
      borderColor = ''blue'',
      fill = True,
      backgroundColor = ''rgba(0,0,255,0.1)''\<rparr>"
  by (simp add: history_chart_def rev_map)

text \<open>The replies to a \<open>historial\<close> command whose query compiles.\<close>

lemma historial_compiled:
  assumes "body_data rb = Some d" and "data_message d = Some m"
    and "data_key d = Some k" and "remoteJid k = Some jid"
    and "startsWith (command_text lib m) ''historial''"
    and "regexp_i lib (busqueda_of lib (command_text lib m)) = Some re"
    and "find (\<lambda>u. whatsapp u = Some (sender_of jid)) (users w) = Some usr"
    and "\<not> db_fault_at w 0" and "\<not> db_fault_at w 1" and "\<not> db_fault_at w 2"
  shows "(find (\<lambda>s. owner s = user_id usr \<and> re (friendlyName s)) (sensors w) = None \<longrightarrow>
            outbox (snd (post_webhook_whatsapp lib rb w)) =
              outbox w @ [SendText (sender_of jid) (not_found_reply (busqueda_of lib (command_text lib m)))])
       \<and> (\<forall>sensor docs.
            find (\<lambda>s. owner s = user_id usr \<and> re (friendlyName s)) (sensors w) = Some sensor
            \<and> docs = filter (\<lambda>x. sensorId x = hardwareId sensor) (measurements w) \<longrightarrow>
            (docs = [] \<longrightarrow> outbox (snd (post_webhook_whatsapp lib rb w)) = outbox w)
            \<and> (docs \<noteq> [] \<longrightarrow>
                 (\<exists>shown rest.
                    outbox (snd (post_webhook_whatsapp lib rb w)) =
                      outbox w @
                      [SendImage (sender_of jid)
                         \<lparr>chart_type = ''line'',
                          chart_labels = map (\<lambda>x. time_label lib (timestamp x)) shown,
                          dataset_label = ''Temperatura '' @ degree_sign @ ''C'',
                          dataset_data = map temperatureC shown,
                          borderColor = ''blue'',
                          fill = True,
                          backgroundColor = ''rgba(0,0,255,0.1)''\<rparr>
                         (emoji_chart @ '' Historial: '' @ friendlyName sensor)]
                    \<and> shown = rev (take 10 (sort_newest_first docs))
                    \<and> length shown = min 10 (length docs)
                    \<and> mset (shown @ rest) = mset docs
                    \<and> (\<forall>a\<in>set shown. \<forall>b\<in>set rest. timestamp b \<le> timestamp a)
                    \<and> sorted (map timestamp shown)
                    \<and> (distinct (map timestamp docs) \<longrightarrow> sorted_wrt (<) (map timestamp shown)))))
       \<and> fst (post_webhook_whatsapp lib rb w) = Response 200 StatusText"
proof -
  let ?txt = "command_text lib m"
  let ?w1 = "(db_step w)\<lparr>console := console w @ [LogCommand ?txt]\<rparr>"
  let ?P = "\<lambda>s. owner s = user_id usr \<and> re (friendlyName s)"
  have ne: "?txt \<noteq> ''estado''"
    using assms(5) by (rule startsWith_historial_not_estado)
  have f: "\<not> db_fault_at ?w1 0" "\<not> db_fault_at ?w1 1"
    using assms(9,10) by (simp_all add: numeral_2_eq_2)
  have run: "webhook_try lib rb w =
               (case comando_historial lib usr (sender_of jid) ?txt ?w1 of
                  (Inl e, w3) \<Rightarrow> (Inl e, w3)
                | (Inr u, w3) \<Rightarrow> (Inr 200, w3))"
    using ne assms(5)
    by (simp add: webhook_try_known_user [OF assms(1-4) assms(8) assms(7)])
  show ?thesis
  proof (cases "find ?P (sensors w)")
    case None
    then have "find ?P (sensors ?w1) = None" by simp
    from comando_historial_no_match [OF assms(6) f(1) this] None
    show ?thesis
      by (simp add: post_webhook_whatsapp_def run)
  next
    case (Some sensor)
    let ?docs = "filter (\<lambda>x. sensorId x = hardwareId sensor) (measurements w)"
    from Some have "find ?P (sensors ?w1) = Some sensor" by simp
    note h = comando_historial_match [OF assms(6) f this, of "sender_of jid"]
    have out: "outbox (snd (post_webhook_whatsapp lib rb w)) =
                 outbox w @ (if ?docs = [] then []
                   else [SendImage (sender_of jid)
                           (history_chart lib (take 10 (sort_newest_first ?docs)))
                           (emoji_chart @ '' Historial: '' @ friendlyName sensor)])"
      and st: "fst (post_webhook_whatsapp lib rb w) = Response 200 StatusText"
      by (simp_all add: post_webhook_whatsapp_def run h)
    note c = charted_recent [where ms = ?docs and n = 10]
    have "?docs \<noteq> [] \<Longrightarrow>
            \<exists>shown rest.
              outbox (snd (post_webhook_whatsapp lib rb w)) =
                outbox w @
                [SendImage (sender_of jid)
                   \<lparr>chart_type = ''line'',
                    chart_labels = map (\<lambda>x. time_label lib (timestamp x)) shown,
                    dataset_label = ''Temperatura '' @ degree_sign @ ''C'',
                    dataset_data = map temperatureC shown,
                    borderColor = ''blue'',
                    fill = True,
                    backgroundColor = ''rgba(0,0,255,0.1)''\<rparr>
                   (emoji_chart @ '' Historial: '' @ friendlyName sensor)]
              \<and> shown = rev (take 10 (sort_newest_first ?docs))
              \<and> length shown = min 10 (length ?docs)
              \<and> mset (shown @ rest) = mset ?docs
              \<and> (\<forall>a\<in>set shown. \<forall>b\<in>set rest. timestamp b \<le> timestamp a)
              \<and> sorted (map timestamp shown)
              \<and> (distinct (map timestamp ?docs) \<longrightarrow> sorted_wrt (<) (map timestamp shown))"
      apply (rule exI [of _ "rev (take 10 (sort_newest_first ?docs))"])
      apply (rule exI [of _ "drop 10 (sort_newest_first ?docs)"])
      using c by (simp add: out history_chart_rev)
    with Some out st show ?thesis
      by simp
  qed
qed

lemma webhook_bad_pattern_silent:
  assumes "body_data rb = Some d" and "data_message d = Some m"
    and "data_key d = Some k" and "remoteJid k = Some jid" and "\<not> db_fault_at w 0"
    and "find (\<lambda>u. whatsapp u = Some (sender_of jid)) (users w) = Some usr"
    and "startsWith (command_text lib m) ''historial''"
    and "regexp_i lib (busqueda_of lib (command_text lib m)) = None"
  shows "outbox (snd (post_webhook_whatsapp lib rb w)) = outbox w"
  using assms(7,8) startsWith_historial_not_estado [OF assms(7)]
  by (simp add: post_webhook_whatsapp_def webhook_try_known_user [OF assms(1-6)]
        comando_historial_bad_pattern)

lemma ex_twin_shown:
  "rev (take 10 (sort_newest_first [reading 1000 4, (reading 1000 4)\<lparr>voltageV := 3\<rparr>]))
     = [(reading 1000 4)\<lparr>voltageV := 3\<rparr>, reading 1000 4]"
  by (simp add: sort_newest_first_def reading_def)

text \<open>
  C7, as the claim states it, fails, in two ways. Ana, who owns the freezer with its
  three measurements, sends \<open>historial (\<close>: the query is no regular expression, no
  message is sent, neither the not-found reply nor a chart, and the handler answers
  500. And when the freezer has two measurements taken at the same instant, the chart
  shows both under the same label, whichever the database returns first: its order is
  not strictly oldest to newest.
\<close>

theorem historial_counterexample:
  "sensors example_world = [freezer] \<and> owner freezer = user_id ana
   \<and> whatsapp ana = Some ''5491100000001''
   \<and> measurements example_world = [reading 1000 4, reading 3000 6, reading 2000 5]
   \<and> outbox (snd (post_webhook_whatsapp example_platform
                     (chat_message ''5491100000001@s.whatsapp.net'' ''historial ('')
                     example_world)) = []
   \<and> fst (post_webhook_whatsapp example_platform
             (chat_message ''5491100000001@s.whatsapp.net'' ''historial ('') example_world)
       = Response 500 StatusText
   \<and> sensors twin_readings = [freezer]
   \<and> measurements twin_readings = [reading 1000 4, (reading 1000 4)\<lparr>voltageV := 3\<rparr>]
   \<and> timestamp (reading 1000 4) = timestamp ((reading 1000 4)\<lparr>voltageV := 3\<rparr>)
   \<and> reading 1000 4 \<noteq> (reading 1000 4)\<lparr>voltageV := 3\<rparr>
   \<and> outbox (snd (post_webhook_whatsapp example_platform
                     (chat_message ''5491100000001@s.whatsapp.net'' ''Historial FREEZER'')
                     twin_readings))
       = [SendImage ''5491100000001''
            \<lparr>chart_type = ''line'',
             chart_labels = [time_label example_platform 1000, time_label example_platform 1000],
             dataset_label = ''Temperatura '' @ degree_sign @ ''C'',
             dataset_data = [4, 4],
             borderColor = ''blue'',
             fill = True,
             backgroundColor = ''rgba(0,0,255,0.1)''\<rparr>
            (emoji_chart @ '' Historial: '' @ ''Freezer Carnes'')]"
proof -
  let ?jid = "''5491100000001@s.whatsapp.net''"
  have u: "find (\<lambda>u. whatsapp u = Some (sender_of ?jid)) (users example_world) = Some ana"
    by (simp add: ex_ana_sender ex_find_ana_by_number)
  have o: "owner freezer = user_id ana" "outbox example_world = []"
    "measurements example_world = [reading 1000 4, reading 3000 6, reading 2000 5]"
    by (simp_all add: freezer_def ana_def example_world_def)
  have a: "outbox (snd (post_webhook_whatsapp example_platform
                     (chat_message ?jid ''historial ('') example_world)) = []"
    using webhook_bad_pattern_silent [where lib = example_platform and w = example_world
            and rb = "chat_message ?jid ''historial (''" and jid = ?jid and usr = ana] u
    by (simp add: chat_message_fields ex_no_faults ex_command_texts ex_busquedas ex_starts
          ex_bad_pattern o)
  have b: "fst (post_webhook_whatsapp example_platform
             (chat_message ?jid ''historial ('') example_world) = Response 500 StatusText"
    using webhook_bad_pattern_500 [where lib = example_platform and w = example_world
            and rb = "chat_message ?jid ''historial (''" and jid = ?jid and usr = ana] u
    by (simp add: chat_message_fields ex_no_faults ex_command_texts ex_busquedas ex_starts
          ex_bad_pattern)
  have d: "sensorId (reading t v) = hardwareId freezer" for t v
    by (simp add: freezer_def reading_def)
  have t: "timestamp ((reading 1000 4)\<lparr>voltageV := 3\<rparr>) = 1000" "timestamp (reading 1000 4) = 1000"
    "temperatureC ((reading 1000 4)\<lparr>voltageV := 3\<rparr>) = 4" "temperatureC (reading 1000 4) = 4"
    "reading 1000 4 \<noteq> (reading 1000 4)\<lparr>voltageV := 3\<rparr>"
    by (simp_all add: reading_def)
  have c: "outbox (snd (post_webhook_whatsapp example_platform
                     (chat_message ?jid ''Historial FREEZER'') twin_readings))
       = [SendImage ''5491100000001''
            \<lparr>chart_type = ''line'',
             chart_labels = [time_label example_platform 1000, time_label example_platform 1000],
             dataset_label = ''Temperatura '' @ degree_sign @ ''C'',
             dataset_data = [4, 4],
             borderColor = ''blue'',
             fill = True,
             backgroundColor = ''rgba(0,0,255,0.1)''\<rparr>
            (emoji_chart @ '' Historial: '' @ ''Freezer Carnes'')]"
    using historial_compiled [where lib = example_platform and w = twin_readings
            and rb = "chat_message ?jid ''Historial FREEZER''" and jid = ?jid and usr = ana
            and re = "\<lambda>s. contains (ascii_toLowerCase s) (ascii_toLowerCase ''freezer'')"]
          u ex_match_freezer(1)
    by (simp add: chat_message_fields ex_command_texts ex_busquedas ex_starts ex_patterns
          twin_fields d ex_twin_shown ex_ana_sender ex_sensors t)
  have e: "sensors twin_readings = [freezer]"
    "timestamp (reading 1000 4) = timestamp ((reading 1000 4)\<lparr>voltageV := 3\<rparr>)"
    by (simp_all add: twin_fields ex_sensors t)
  from ex_sensors(1) o(1,3) ex_ana_contact(1) a b e t(5) twin_fields(3) c show ?thesis by blast
qed

text \<open>
  C7, amended. A \<open>historial\<close> command from a known user, with the three database
  operations answered. When the query is no regular expression, nothing is sent and
  the handler answers 500. When the query compiles: if no sensor of the user matches,
  exactly one text message is sent, the not-found reply that quotes the query; if a
  sensor matches (the first one is taken) and has no measurement, nothing is sent; if
  it has measurements, exactly one image message is sent. The measurements \<open>shown\<close> in
  its chart are the newest-first order cut at 10 and reversed, so they are at most 10,
  none of the others is newer than any of them, and their timestamps never decrease
  from left to right (they increase strictly when the timestamps of the sensor are
  distinct); labels and temperatures are in that order.
\<close>

theorem historial_replies:
  assumes "body_data rb = Some d" and "data_message d = Some m"
    and "data_key d = Some k" and "remoteJid k = Some jid"
    and "startsWith (command_text lib m) ''historial''"
    and "find (\<lambda>u. whatsapp u = Some (sender_of jid)) (users w) = Some usr"
    and "\<not> db_fault_at w 0" and "\<not> db_fault_at w 1" and "\<not> db_fault_at w 2"
  shows "(regexp_i lib (busqueda_of lib (command_text lib m)) = None \<longrightarrow>
            outbox (snd (post_webhook_whatsapp lib rb w)) = outbox w
            \<and> fst (post_webhook_whatsapp lib rb w) = Response 500 StatusText)
       \<and> (\<forall>re. regexp_i lib (busqueda_of lib (command_text lib m)) = Some re \<longrightarrow>
           (find (\<lambda>s. owner s = user_id usr \<and> re (friendlyName s)) (sensors w) = None \<longrightarrow>
            outbox (snd (post_webhook_whatsapp lib rb w)) =
              outbox w @ [SendText (sender_of jid) (not_found_reply (busqueda_of lib (command_text lib m)))])
       \<and> (\<forall>sensor docs.
            find (\<lambda>s. owner s = user_id usr \<and> re (friendlyName s)) (sensors w) = Some sensor
            \<and> docs = filter (\<lambda>x. sensorId x = hardwareId sensor) (measurements w) \<longrightarrow>
            (docs = [] \<longrightarrow> outbox (snd (post_webhook_whatsapp lib rb w)) = outbox w)
            \<and> (docs \<noteq> [] \<longrightarrow>
                 (\<exists>shown rest.
                    outbox (snd (post_webhook_whatsapp lib rb w)) =
                      outbox w @
                      [SendImage (sender_of jid)
                         \<lparr>chart_type = ''line'',
                          chart_labels = map (\<lambda>x. time_label lib (timestamp x)) shown,
                          dataset_label = ''Temperatura '' @ degree_sign @ ''C'',
                          dataset_data = map temperatureC shown,
                          borderColor = ''blue'',
                          fill = True,
                          backgroundColor = ''rgba(0,0,255,0.1)''\<rparr>
                         (emoji_chart @ '' Historial: '' @ friendlyName sensor)]
                    \<and> shown = rev (take 10 (sort_newest_first docs))
                    \<and> length shown = min 10 (length docs)
                    \<and> mset (shown @ rest) = mset docs
                    \<and> (\<forall>a\<in>set shown. \<forall>b\<in>set rest. timestamp b \<le> timestamp a)
                    \<and> sorted (map timestamp shown)
                    \<and> (distinct (map timestamp docs) \<longrightarrow> sorted_wrt (<) (map timestamp shown)))))
       \<and> fst (post_webhook_whatsapp lib rb w) = Response 200 StatusText)"
    (is "?bad \<and> (\<forall>re. ?compiles re \<longrightarrow> ?good re)")
proof (rule conjI)
  show ?bad
  proof (rule impI, rule conjI)
    assume n: "regexp_i lib (busqueda_of lib (command_text lib m)) = None"
    show "outbox (snd (post_webhook_whatsapp lib rb w)) = outbox w"
      by (rule webhook_bad_pattern_silent [OF assms(1-4) assms(7) assms(6) assms(5) n])
    show "fst (post_webhook_whatsapp lib rb w) = Response 500 StatusText"
      by (rule webhook_bad_pattern_500 [OF assms(1-4) assms(7) assms(6) assms(5) n])
  qed
next
  show "\<forall>re. ?compiles re \<longrightarrow> ?good re"
  proof (rule allI, rule impI)
    fix re
    assume "?compiles re"
    then show "?good re"
      by (rule historial_compiled [OF assms(1-5) _ assms(6-9)])
  qed
qed

text \<open>
  Ana asks for the freezer, whose readings were stored in the order 1000, 3000, 2000:
  the chart shows 1000, 2000, 3000. Without readings nothing is sent, and a query
  for an oven is answered with the not-found reply.
\<close>

theorem historial_replies_witness:
  "startsWith (command_text example_platform \<lparr>conversation = Some ''Historial FREEZER'', extendedTextMessage = None\<rparr>)
     ''historial''
   \<and> regexp_i example_platform ''freezer''
       = Some (\<lambda>s. contains (ascii_toLowerCase s) (ascii_toLowerCase ''freezer''))
   \<and> find (\<lambda>u. whatsapp u = Some (sender_of ''5491100000001@s.whatsapp.net'')) (users example_world)
       = Some ana
   \<and> \<not> db_fault_at example_world 0 \<and> \<not> db_fault_at example_world 1 \<and> \<not> db_fault_at example_world 2
   \<and> measurements example_world = [reading 1000 4, reading 3000 6, reading 2000 5]
   \<and> outbox (snd (post_webhook_whatsapp example_platform
                     (chat_message ''5491100000001@s.whatsapp.net'' ''Historial FREEZER'')
                     example_world))
       = [SendImage ''5491100000001''
            \<lparr>chart_type = ''line'',
             chart_labels = map (\<lambda>x. time_label example_platform (timestamp x))
                              [reading 1000 4, reading 2000 5, reading 3000 6],
             dataset_label = ''Temperatura '' @ degree_sign @ ''C'',
             dataset_data = map temperatureC [reading 1000 4, reading 2000 5, reading 3000 6],
             borderColor = ''blue'',
             fill = True,
             backgroundColor = ''rgba(0,0,255,0.1)''\<rparr>
            (emoji_chart @ '' Historial: '' @ ''Freezer Carnes'')]
   \<and> outbox (snd (post_webhook_whatsapp example_platform
                     (chat_message ''5491100000001@s.whatsapp.net'' ''Historial FREEZER'')
                     no_readings)) = []
   \<and> outbox (snd (post_webhook_whatsapp example_platform
                     (chat_message ''5491100000001@s.whatsapp.net'' ''historial horno'')
                     example_world))
       = [SendText ''5491100000001'' (not_found_reply ''horno'')]"
proof -
  let ?jid = "''5491100000001@s.whatsapp.net''"
  have u: "find (\<lambda>u. whatsapp u = Some (sender_of ?jid)) (users example_world) = Some ana"
    by (simp add: ex_ana_sender ex_find_ana_by_number)
  have o: "outbox example_world = []" by (simp add: example_world_def)
  have st: "startsWith (command_text example_platform \<lparr>conversation = Some ''Historial FREEZER'',
              extendedTextMessage = None\<rparr>) ''historial''"
    by (simp add: ex_command_texts ex_starts)
  have a: "outbox (snd (post_webhook_whatsapp example_platform
                     (chat_message ?jid ''Historial FREEZER'') example_world))
       = [SendImage ''5491100000001''
            \<lparr>chart_type = ''line'',
             chart_labels = map (\<lambda>x. time_label example_platform (timestamp x))
                              [reading 1000 4, reading 2000 5, reading 3000 6],
             dataset_label = ''Temperatura '' @ degree_sign @ ''C'',
             dataset_data = map temperatureC [reading 1000 4, reading 2000 5, reading 3000 6],
             borderColor = ''blue'',
             fill = True,
             backgroundColor = ''rgba(0,0,255,0.1)''\<rparr>
            (emoji_chart @ '' Historial: '' @ ''Freezer Carnes'')]"
    using historial_replies [where lib = example_platform and w = example_world
            and rb = "chat_message ?jid ''Historial FREEZER''" and jid = ?jid and usr = ana]
          u ex_match_freezer(1)
    by (simp add: chat_message_fields ex_command_texts ex_busquedas ex_starts ex_patterns
          ex_no_faults ex_docs ex_shown ex_ana_sender o ex_sensors)
  have b: "outbox (snd (post_webhook_whatsapp example_platform
                     (chat_message ?jid ''Historial FREEZER'') no_readings)) = []"
    using historial_replies [where lib = example_platform and w = no_readings
            and rb = "chat_message ?jid ''Historial FREEZER''" and jid = ?jid and usr = ana]
          u ex_match_freezer(1)
    by (simp add: chat_message_fields ex_command_texts ex_busquedas ex_starts ex_patterns
          no_readings_fields)
  have c: "outbox (snd (post_webhook_whatsapp example_platform
                     (chat_message ?jid ''historial horno'') example_world))
       = [SendText ''5491100000001'' (not_found_reply ''horno'')]"
    using historial_replies [where lib = example_platform and w = example_world
            and rb = "chat_message ?jid ''historial horno''" and jid = ?jid and usr = ana]
          u ex_match_freezer(2)
    by (simp add: chat_message_fields ex_command_texts ex_busquedas ex_starts ex_patterns
          ex_no_faults ex_ana_sender o)
  have m: "measurements example_world = [reading 1000 4, reading 3000 6, reading 2000 5]"
    by (simp add: example_world_def)
  from st ex_patterns(1) u ex_no_faults m a b c show ?thesis by blast
qed

section \<open>Sensor administration\<close>

lemma Sensor_deleteOne_eq:
  "Sensor_deleteOne hid caller w =
     (if db_fault_at w 0 then (Inl StorageError, db_step w)
      else (Inr (), (db_step w)\<lparr>sensors :=
              remove_first (\<lambda>s. hardwareId s = hid \<and> owner s = caller) (sensors w)\<rparr>))"
  by (simp add: Sensor_deleteOne_def db_call_eq)

lemma Measurement_deleteMany_eq:
  "Measurement_deleteMany hid w =
     (if db_fault_at w 0 then (Inl StorageError, db_step w)
      else (Inr (), (db_step w)\<lparr>measurements := filter (\<lambda>m. sensorId m \<noteq> hid) (measurements w)\<rparr>))"
  by (simp add: Measurement_deleteMany_def db_call_eq)

lemma Sensor_findOne_owned_eq:
  "Sensor_findOne_owned hid caller w =
     (if db_fault_at w 0 then (Inl StorageError, db_step w)
      else (Inr (find (\<lambda>s. hardwareId s = hid \<and> owner s = caller) (sensors w)), db_step w))"
  by (simp add: Sensor_findOne_owned_def db_call_eq)

lemma Sensor_findOneAndUpdate_eq:
  "Sensor_findOneAndUpdate dflt b caller w =
     (if db_fault_at w 0 then (Inl StorageError, db_step w)
      else (case find_index (\<lambda>s. hardwareId s = cfg_hardwareId b) (sensors w) of
              Some i \<Rightarrow>
                (Inr (apply_sensorData b caller (sensors w ! i)),
                 (db_step w)\<lparr>sensors := (sensors w)[i := apply_sensorData b caller (sensors w ! i)]\<rparr>)
            | None \<Rightarrow>
                (Inr (apply_sensorData b caller dflt),
                 (db_step w)\<lparr>sensors := sensors w @ [apply_sensorData b caller dflt]\<rparr>)))"
  by (simp add: Sensor_findOneAndUpdate_def db_call_eq split: option.splits)

lemma find_update_at_index:
  "find_index P xs = Some i \<Longrightarrow> P y \<Longrightarrow> find P (xs[i := y]) = Some y"
  by (induction xs arbitrary: i) (auto split: if_splits)

lemma find_append_new:
  "find_index P xs = None \<Longrightarrow> P y \<Longrightarrow> find P (xs @ [y]) = Some y"
  by (induction xs) (auto split: if_splits)

lemma find_index_distinct:
  assumes "find_index (\<lambda>s. f s = k) xs = Some i" and "distinct (map f xs)"
    and "j < length xs" and "f (xs ! j) = k"
  shows "j = i"
proof -
  from assms(1) have "i < length xs" "f (xs ! i) = k"
    using find_index_Some [of "\<lambda>s. f s = k" xs i] by auto
  with assms(2-4) show ?thesis
    by (metis distinct_conv_nth length_map nth_map)
qed

lemma apply_sensorData_fields [simp]:
  "hardwareId (apply_sensorData b caller s) = cfg_hardwareId b"
  "owner (apply_sensorData b caller s) = caller"
  "enabled (apply_sensorData b caller s)"
  by (simp_all add: apply_sensorData_def)

text \<open>
  C9. When the upsert is carried out, the handler answers with the stored sensor; a
  lookup of the hardwareId of the request finds this sensor, its owner is the caller
  and it is enabled, whoever owned a sensor with that hardwareId before. With
  hardwareIds unique, it is the only sensor with that hardwareId.
\<close>

theorem config_forces_owner:
  assumes "\<not> db_fault_at w 0"
  shows "\<exists>s'. fst (post_sensors_config dflt caller b w) = Response 200 (JsonSensor s')
          \<and> find (\<lambda>s. hardwareId s = cfg_hardwareId b)
                (sensors (snd (post_sensors_config dflt caller b w))) = Some s'
          \<and> owner s' = caller \<and> enabled s'
          \<and> (distinct (map hardwareId (sensors w)) \<longrightarrow>
               (\<forall>s\<in>set (sensors (snd (post_sensors_config dflt caller b w))).
                  hardwareId s = cfg_hardwareId b \<longrightarrow> s = s'))"
proof (cases "find_index (\<lambda>s. hardwareId s = cfg_hardwareId b) (sensors w)")
  case None
  then have "\<forall>s\<in>set (sensors w). hardwareId s \<noteq> cfg_hardwareId b"
    by (simp add: find_index_None)
  with None assms show ?thesis
    by (auto simp: post_sensors_config_def Sensor_findOneAndUpdate_eq find_append_new)
next
  case (Some i)
  let ?s = "apply_sensorData b caller (sensors w ! i)"
  have u: "distinct (map hardwareId (sensors w)) \<Longrightarrow> s \<in> set ((sensors w)[i := ?s]) \<Longrightarrow>
           hardwareId s = cfg_hardwareId b \<Longrightarrow> s = ?s" for s
  proof -
    assume d: "distinct (map hardwareId (sensors w))" and m: "s \<in> set ((sensors w)[i := ?s])"
      and h: "hardwareId s = cfg_hardwareId b"
    from m obtain j where j: "j < length (sensors w)" "((sensors w)[i := ?s]) ! j = s"
      by (auto simp: in_set_conv_nth)
    show "s = ?s"
    proof (cases "j = i")
      case True
      with j show ?thesis by simp
    next
      case False
      with j h have "hardwareId (sensors w ! j) = cfg_hardwareId b" by simp
      from find_index_distinct [OF Some d j(1) this] False show ?thesis by simp
    qed
  qed
  from Some assms show ?thesis
    by (auto simp: post_sensors_config_def Sensor_findOneAndUpdate_eq find_update_at_index dest: u)
qed

text \<open>Beto configures the freezer, which Ana owns; afterwards Beto owns it.\<close>

theorem config_forces_owner_witness:
  "\<not> db_fault_at example_world 0 \<and> sensors example_world = [freezer] \<and> owner freezer = 1
   \<and> cfg_hardwareId takeover = ''HELADERA-01''
   \<and> (\<exists>s'. fst (post_sensors_config blank_sensor 2 takeover example_world)
               = Response 200 (JsonSensor s')
          \<and> find (\<lambda>s. hardwareId s = ''HELADERA-01'')
                (sensors (snd (post_sensors_config blank_sensor 2 takeover example_world))) = Some s'
          \<and> owner s' = 2 \<and> enabled s')
   \<and> sensors (snd (post_sensors_config blank_sensor 2 takeover example_world))
       = [freezer\<lparr>friendlyName := ''Mi heladera'', owner := 2\<rparr>]"
proof -
  have t: "cfg_hardwareId takeover = ''HELADERA-01''" by (simp add: takeover_def)
  have f: "owner freezer = 1" by (simp add: freezer_def)
  have h: "hardwareId freezer = ''HELADERA-01''" by (simp add: freezer_def)
  have e: "sensors (snd (post_sensors_config blank_sensor 2 takeover example_world))
       = [freezer\<lparr>friendlyName := ''Mi heladera'', owner := 2\<rparr>]"
    by (simp add: post_sensors_config_def Sensor_findOneAndUpdate_eq ex_no_faults ex_sensors
          takeover_def apply_sensorData_def freezer_def)
  show ?thesis
    using config_forces_owner [OF ex_no_faults [of 0], of blank_sensor 2 takeover] t f e ex_sensors(1)
          ex_no_faults [of 0] h
    by auto
qed

subsection \<open>Deleting a sensor\<close>

lemma delete_sensor_effect:
  assumes "\<not> db_fault_at w 0" and "\<not> db_fault_at w 1"
  shows "sensors (snd (delete_sensor caller hid w)) =
           remove_first (\<lambda>s. hardwareId s = hid \<and> owner s = caller) (sensors w)"
    and "measurements (snd (delete_sensor caller hid w)) =
           filter (\<lambda>m. sensorId m \<noteq> hid) (measurements w)"
    and "fst (delete_sensor caller hid w) = Response 200 (JsonMessage ''Eliminado'')"
  using assms
  by (simp_all add: delete_sensor_def Sensor_deleteOne_eq Measurement_deleteMany_eq)

lemma remove_first_unique:
  "distinct (map f xs) \<Longrightarrow> x \<in> set (remove_first (\<lambda>s. f s = k \<and> Q s) xs) \<Longrightarrow> \<not> (f x = k \<and> Q x)"
  by (induction xs) (force split: if_splits)+

text \<open>
  With hardwareIds unique, a deletion that is carried out leaves no sensor with that
  hardwareId owned by the caller, and the caller's history query for it is refused.
\<close>

lemma delete_then_history_refused:
  assumes "distinct (map hardwareId (sensors w))"
    and "\<not> db_fault_at w 0" and "\<not> db_fault_at w 1" and "\<not> db_fault_at w 2"
  shows "fst (get_history caller hid limit_param (snd (delete_sensor caller hid w)))
           = Response 403 (Text ''No autorizado'')"
proof -
  let ?w = "snd (delete_sensor caller hid w)"
  have "\<forall>x\<in>set (sensors ?w). \<not> (hardwareId x = hid \<and> owner x = caller)"
    using remove_first_unique [OF assms(1), of _ hid "\<lambda>s. owner s = caller"]
    unfolding delete_sensor_effect(1) [OF assms(2,3)] by blast
  then have "find (\<lambda>s. hardwareId s = hid \<and> owner s = caller) (sensors ?w) = None"
    by (simp add: find_None_iff)
  moreover have "\<not> db_fault_at ?w 0"
    using assms(2-4)
    by (simp add: delete_sensor_def Sensor_deleteOne_eq Measurement_deleteMany_eq numeral_2_eq_2)
  ultimately show ?thesis
    by (simp add: get_history_def Sensor_findOne_owned_eq)
qed

text \<open>
  C6. The handler deletes the sensor only when the caller owns it, but it deletes the
  measurements of the hardwareId in every case. Beto, who does not own the freezer,
  asks for its deletion: the sensor stays, and its three measurements are gone.
\<close>

theorem delete_by_stranger_wipes_measurements:
  "owner freezer = 1
   \<and> sensors example_world = [freezer]
   \<and> measurements example_world = [reading 1000 4, reading 3000 6, reading 2000 5]
   \<and> fst (delete_sensor 2 ''HELADERA-01'' example_world) = Response 200 (JsonMessage ''Eliminado'')
   \<and> sensors (snd (delete_sensor 2 ''HELADERA-01'' example_world)) = [freezer]
   \<and> measurements (snd (delete_sensor 2 ''HELADERA-01'' example_world)) = []"
proof -
  have m: "measurements example_world = [reading 1000 4, reading 3000 6, reading 2000 5]"
    by (simp add: example_world_def)
  have f: "owner freezer = 1" "hardwareId freezer = ''HELADERA-01''"
    by (simp_all add: freezer_def)
  have r: "sensorId (reading t c) = ''HELADERA-01''" for t c
    by (simp add: reading_def)
  show ?thesis
    by (simp add: delete_sensor_def Sensor_deleteOne_eq Measurement_deleteMany_eq ex_no_faults
          ex_sensors m f r)
qed

end
